(* ===== verification/Dlna_Prelude.thy ===== *)
theory Dlna_Prelude
  imports Main "HOL-Library.Sublist"
begin

text \<open>
  Shared vocabulary of the crab-dlna development.  Strings are \<open>char list\<close>s whose
  characters are the bytes of Rust's UTF-8 \<open>String\<close>s.  Rust's \<open>format!\<close> with
  named or positional arguments is modelled as a list of pieces, literal text or a hole
  naming an argument, rendered by \<open>fmt\<close>.  The theory also holds the two scanners the
  payload lemmas use: \<open>count_occ\<close> (how often a needle occurs in a string) and
  \<open>after_tag\<close> (the text after the first occurrence of an XML start tag), with the
  generic lemmas on them that the component theories share.
\<close>

named_theorems fmt_simps \<open>rendering equations of the format templates\<close>
named_theorems esc_simps \<open>equations of the XML escaping on concrete characters\<close>

type_synonym url = string
type_synonym err_msg = string

abbreviation nl :: string where
  "nl \<equiv> [CHR ''\<newline>'']"

abbreviation ind :: "nat \<Rightarrow> string" where
  "ind n \<equiv> replicate n (CHR '' '')"

subsection \<open>Rust \<open>format!\<close>\<close>

datatype 'a piece = Txt string | Hole 'a

primrec fmt :: "('a \<Rightarrow> string) \<Rightarrow> 'a piece list \<Rightarrow> string" where
  "fmt env [] = []"
| "fmt env (p # ps) = (case p of Txt s \<Rightarrow> s | Hole a \<Rightarrow> env a) @ fmt env ps"

primrec holes :: "'a piece list \<Rightarrow> 'a list" where
  "holes [] = []"
| "holes (p # ps) = (case p of Txt _ \<Rightarrow> [] | Hole a \<Rightarrow> [a]) @ holes ps"

text \<open>Rust's \<open>Option::unwrap_or\<close>.\<close>

definition unwrap_or :: "'a option \<Rightarrow> 'a \<Rightarrow> 'a" where
  "unwrap_or x d = (case x of Some v \<Rightarrow> v | None \<Rightarrow> d)"

lemma unwrap_or_simps [simp]:
  "unwrap_or (Some v) d = v"
  "unwrap_or None d = d"
  by (simp_all add: unwrap_or_def)

lemma fmt_append [simp]: "fmt env (xs @ ys) = fmt env xs @ fmt env ys"
  by (induction xs) auto

lemma holes_append [simp]: "holes (xs @ ys) = holes xs @ holes ys"
  by (induction xs) auto

lemma fmt_Txt [fmt_simps]: "fmt env (Txt s # ps) = s @ fmt env ps"
  and fmt_Hole [fmt_simps]: "fmt env (Hole a # ps) = env a @ fmt env ps"
  by simp_all

lemma fmt_cong:
  "(\<And>a. a \<in> set (holes t) \<Longrightarrow> env a = env' a) \<Longrightarrow> fmt env t = fmt env' t"
  by (induction t) (auto split: piece.splits)

text \<open>A function that distributes over append commutes with rendering.\<close>

primrec map_txt :: "(string \<Rightarrow> string) \<Rightarrow> 'a piece list \<Rightarrow> 'a piece list" where
  "map_txt f [] = []"
| "map_txt f (p # ps) = (case p of Txt s \<Rightarrow> Txt (f s) | Hole a \<Rightarrow> Hole a) # map_txt f ps"

lemma fmt_hom:
  assumes "\<And>xs ys. f (xs @ ys) = f xs @ f ys" and "f [] = []"
  shows "f (fmt env t) = fmt (f \<circ> env) (map_txt f t)"
  by (induction t) (auto simp: assms split: piece.splits)

lemma holes_map_txt [simp]: "holes (map_txt f t) = holes t"
  by (induction t) (auto split: piece.splits)

subsection \<open>Counting occurrences\<close>

fun count_occ :: "'a list \<Rightarrow> 'a list \<Rightarrow> nat" where
  "count_occ p [] = 0"
| "count_occ p (x # xs) = (if prefix p (x # xs) then 1 else 0) + count_occ p xs"

lemma count_occ_append_ge:
  "count_occ p xs + count_occ p ys \<le> count_occ p (xs @ ys)"
proof (induction xs)
  case Nil
  show ?case by simp
next
  case (Cons x xs)
  have "prefix p (x # xs) \<Longrightarrow> prefix p (x # xs @ ys)"
    by (metis append_Cons prefix_append)
  with Cons show ?case by auto
qed

lemma count_occ_self:
  "p \<noteq> [] \<Longrightarrow> 1 \<le> count_occ p p"
  by (cases p) auto

text \<open>Every hole filled with a nonempty value \<open>u\<close> is an occurrence of \<open>u\<close>.\<close>

lemma count_occ_fmt_ge:
  assumes "u \<noteq> []"
  shows "length (filter (\<lambda>a. env a = u) (holes t)) \<le> count_occ u (fmt env t)"
proof (induction t)
  case Nil
  show ?case by simp
next
  case (Cons p ps)
  show ?case
  proof (cases p)
    case (Txt s)
    have "count_occ u (fmt env ps) \<le> count_occ u (s @ fmt env ps)"
      using count_occ_append_ge [of u s "fmt env ps"] by simp
    with Cons Txt show ?thesis by simp
  next
    case (Hole a)
    have "count_occ u (env a) + count_occ u (fmt env ps) \<le> count_occ u (env a @ fmt env ps)"
      by (rule count_occ_append_ge)
    moreover have "env a = u \<Longrightarrow> 1 \<le> count_occ u (env a)"
      using assms count_occ_self by blast
    ultimately show ?thesis using Cons Hole by auto
  qed
qed

subsection \<open>Locating an XML start tag\<close>

fun after_tag :: "string \<Rightarrow> string \<Rightarrow> string option" where
  "after_tag tag [] = (if tag = [] then Some [] else None)"
| "after_tag tag (c # cs) =
     (if prefix tag (c # cs) then Some (drop (length tag) (c # cs)) else after_tag tag cs)"

text \<open>
  A stretch of text without \<open><\<close> cannot hold a start tag, so the scanner passes over it.
\<close>

lemma after_tag_skip:
  assumes "tag \<noteq> []" and "hd tag = CHR ''<''" and "CHR ''<'' \<notin> set u"
  shows "after_tag tag (u @ rest) = after_tag tag rest"
  using assms(3)
proof (induction u)
  case Nil
  show ?case by simp
next
  case (Cons c cs)
  have "\<not> prefix tag (c # cs @ rest)"
    using assms(1,2) Cons.prems by (cases tag) auto
  with Cons show ?case by simp
qed

lemma after_tag_here:
  "prefix tag (c # cs) \<Longrightarrow> after_tag tag (c # cs) = Some (drop (length tag) (c # cs))"
  by simp

text \<open>The text of an element: what follows its start tag, up to the next \<open><\<close>.\<close>

definition element_text :: "string \<Rightarrow> string \<Rightarrow> string option" where
  "element_text name s =
     map_option (takeWhile (\<lambda>c. c \<noteq> CHR ''<''))
       (after_tag (CHR ''<'' # name @ ''>'') s)"

lemma element_text_skip:
  "CHR ''<'' \<notin> set u \<Longrightarrow> element_text name (u @ rest) = element_text name rest"
  unfolding element_text_def by (subst after_tag_skip) simp_all

lemma element_text_at:
  assumes "CHR ''<'' \<notin> set x"
  shows "element_text name ((CHR ''<'' # name @ ''>'') @ x @ CHR ''<'' # rest) = Some x"
proof -
  have "takeWhile (\<lambda>c. c \<noteq> CHR ''<'') (x @ CHR ''<'' # rest) = x"
    using assms by (induction x) auto
  then show ?thesis
    by (simp add: element_text_def)
qed

subsection \<open>Literal text around a hole\<close>

text \<open>A hole between two literal pieces puts its value between their touching ends.\<close>

lemma sublist_fmt:
  assumes "suffix pre s" and "prefix post s'"
  shows "sublist (pre @ env h @ post) (fmt env (ts @ Txt s # Hole h # Txt s' # ts'))"
proof -
  from assms obtain a b where "s = a @ pre" and "s' = post @ b"
    by (auto simp: suffix_def prefix_def)
  then have "fmt env (ts @ Txt s # Hole h # Txt s' # ts') =
             (fmt env ts @ a) @ (pre @ env h @ post) @ (b @ fmt env ts')"
    by simp
  then show ?thesis by (metis sublist_appendI)
qed

lemma sublist_fmt_nth:
  assumes "Suc (Suc k) < length t"
    and "t ! k = Txt s" and "t ! Suc k = Hole h" and "t ! Suc (Suc k) = Txt s'"
    and "suffix pre s" and "prefix post s'"
  shows "sublist (pre @ env h @ post) (fmt env t)"
proof -
  have "t = take k t @ Txt s # Hole h # Txt s' # drop (Suc (Suc (Suc k))) t"
    using assms(1-4) by (metis Cons_nth_drop_Suc Suc_lessD append_take_drop_id)
  then show ?thesis
    using sublist_fmt [OF assms(5,6), of env h "take k t" "drop (Suc (Suc (Suc k))) t"] by simp
qed


lemma map_filter_append: "List.map_filter f (xs @ ys) = List.map_filter f xs @ List.map_filter f ys"
  by (induction xs) (auto split: option.splits)

end
