(* ===== verification/Xml_Escape.thy ===== *)
theory Xml_Escape
  imports Dlna_Prelude
begin

text \<open>
  The escaping that \<open>play\<close> applies to the DIDL-Lite document (\<open>escape_str_attribute\<close>
  of the \<open>xml\<close> crate, called at src/src/dlna.rs line 15) and the reading a renderer's
  XML parser makes of the escaped text.  The crate is not part of the repository: its
  escape table (\<open><\<close> \<open>>\<close> \<open>"\<close> \<open>'\<close> \<open>&\<close> newline, carriage return) is taken from
  its interface.  The reader decodes the references the escape produces (\<open>unescape_xml\<close>);
  inside an attribute value it first normalises literal white space to a space, as XML 1.0
  section 3.3.3 prescribes (\<open>attr_value_parse\<close>).  The lemmas: the escape is a
  homomorphism of strings; it leaves strings without special characters alone; its output
  is a legal attribute value and legal character data; decoding it gives the input back
  (round trip), and so does reading it as an attribute value exactly when the input has
  no tab; the escape grows a string at most six times.
\<close>

definition tab :: char where "tab = CHR 0x09"
definition cr :: char where "cr = CHR 0x0D"
definition quot :: char where "quot = CHR 0x22"
definition apos :: char where "apos = CHR 0x27"

subsection \<open>The escape\<close>

definition escape_char :: "char \<Rightarrow> string" where
  "escape_char c =
     (if c = CHR ''<'' then ''&lt;''
      else if c = CHR ''>'' then ''&gt;''
      else if c = quot then ''&quot;''
      else if c = apos then ''&apos;''
      else if c = CHR ''&'' then ''&amp;''
      else if c = CHR ''\<newline>'' then ''&#xA;''
      else if c = cr then ''&#xD;''
      else [c])"

definition escape_str_attribute :: "string \<Rightarrow> string" where
  "escape_str_attribute s = concat (map escape_char s)"

definition special :: "char \<Rightarrow> bool" where
  "special c \<longleftrightarrow> c \<in> {CHR ''<'', CHR ''>'', quot, apos, CHR ''&'', CHR ''\<newline>'', cr}"

subsection \<open>The reader\<close>

text \<open>The references an XML reader resolves, with the character each stands for.\<close>

definition xml_refs :: "(string \<times> char) list" where
  "xml_refs =
     [(''lt;'', CHR ''<''), (''gt;'', CHR ''>''), (''quot;'', quot), (''apos;'', apos),
      (''amp;'', CHR ''&''), (''#xA;'', CHR ''\<newline>''), (''#xD;'', cr)]"

text \<open>The reference that starts the text after an ampersand, with the rest of the text.\<close>

definition ref_at :: "string \<Rightarrow> (char \<times> string) option" where
  "ref_at s =
     map_option (\<lambda>(r, c). (c, drop (length r) s)) (find (\<lambda>(r, c). prefix r s) xml_refs)"

lemma ref_at_shorter: "ref_at s = Some (c, rest) \<Longrightarrow> length rest < Suc (length s)"
  by (auto simp: ref_at_def)

function unescape_xml :: "string \<Rightarrow> string" where
  "unescape_xml [] = []"
| "unescape_xml (c # cs) =
     (if c = CHR ''&'' then
        (case ref_at cs of
           Some (d, rest) \<Rightarrow> d # unescape_xml rest
         | None \<Rightarrow> c # unescape_xml cs)
      else c # unescape_xml cs)"
  by pat_completeness auto
termination
  by (relation "measure length") (auto dest: ref_at_shorter)

text \<open>
  Legal text: no \<open><\<close>, and every \<open>&\<close> starts a reference; an attribute value delimited
  by double quotes may not hold a double quote either.
\<close>

function xml_text_ok :: "bool \<Rightarrow> string \<Rightarrow> bool" where
  "xml_text_ok in_attr [] = True"
| "xml_text_ok in_attr (c # cs) =
     (if c = CHR ''<'' \<or> (in_attr \<and> c = quot) then False
      else if c = CHR ''&'' then
        (case ref_at cs of Some (_, rest) \<Rightarrow> xml_text_ok in_attr rest | None \<Rightarrow> False)
      else xml_text_ok in_attr cs)"
  by pat_completeness auto
termination
  by (relation "measure (length \<circ> snd)") (auto dest: ref_at_shorter)

definition ws_to_space :: "char \<Rightarrow> char" where
  "ws_to_space c = (if c = tab \<or> c = CHR ''\<newline>'' \<or> c = cr then CHR '' '' else c)"

definition attr_value_parse :: "string \<Rightarrow> string" where
  "attr_value_parse s = unescape_xml (map ws_to_space s)"

subsection \<open>Lemmas on single characters\<close>

lemma escape_str_attribute_Nil [simp]: "escape_str_attribute [] = []"
  and escape_str_attribute_Cons [simp]:
    "escape_str_attribute (c # cs) = escape_char c @ escape_str_attribute cs"
  and escape_str_attribute_append [simp]:
    "escape_str_attribute (xs @ ys) = escape_str_attribute xs @ escape_str_attribute ys"
  by (simp_all add: escape_str_attribute_def)

lemmas char_defs = quot_def apos_def cr_def tab_def

lemma escape_char_plain [esc_simps]: "\<not> special c \<Longrightarrow> escape_char c = [c]"
  by (simp add: escape_char_def special_def)

lemma unescape_escape_char: "unescape_xml (escape_char c @ t) = c # unescape_xml t"
  by (simp add: escape_char_def ref_at_def xml_refs_def char_defs)

lemma xml_text_ok_escape_char:
  "xml_text_ok b (escape_char c @ t) = xml_text_ok b t"
  by (simp add: escape_char_def ref_at_def xml_refs_def char_defs)

lemma escape_char_special_out:
  "d \<in> set (escape_char c) \<Longrightarrow> special d \<Longrightarrow> d = CHR ''&''"
  by (auto simp: escape_char_def special_def char_defs split: if_splits)

lemma special_not_in_escape:
  "special d \<Longrightarrow> d \<noteq> CHR ''&'' \<Longrightarrow> d \<notin> set (escape_str_attribute s)"
  by (auto simp: escape_str_attribute_def dest: escape_char_special_out)

lemma length_escape_char: "1 \<le> length (escape_char c) \<and> length (escape_char c) \<le> 6"
  by (simp add: escape_char_def)

lemma ws_to_space_escape_char:
  "map ws_to_space (escape_char c) = escape_char (if c = tab then CHR '' '' else c)"
  by (simp add: escape_char_def ws_to_space_def char_defs)

lemma unescape_xml_plain:
  "CHR ''&'' \<notin> set s \<Longrightarrow> unescape_xml s = s"
  by (induction s) auto

text \<open>The escape commutes with rendering a format template.\<close>

lemma escape_fmt:
  "escape_str_attribute (fmt env t) =
     fmt (escape_str_attribute \<circ> env) (map_txt escape_str_attribute t)"
  by (rule fmt_hom) simp_all

subsection \<open>Properties of the escape\<close>

text \<open>
  Round trip: decoding the references in the escaped text gives back exactly the
  string that was escaped, whatever it holds.
\<close>

lemma unescape_escape: "unescape_xml (escape_str_attribute s) = s"
  by (induction s) (simp_all add: unescape_escape_char)

text \<open>
  Safety: the escaped text is a legal XML attribute value between double quotes (and
  so legal character data): no \<open><\<close>, no \<open>"\<close>, and every \<open>&\<close> starts a reference.
\<close>

lemma escape_xml_text_ok:
  "xml_text_ok True (escape_str_attribute s)"
  by (induction s) (simp_all add: xml_text_ok_escape_char)

lemma escape_str_attribute_inj: "inj escape_str_attribute"
  by (metis injI unescape_escape)

text \<open>
  Bounds: escaping never shortens a string and at most multiplies its length by six
  (the longest reference, \<open>&quot;\<close> or \<open>&apos;\<close>, has six characters).
\<close>

lemma escape_length_bounds:
  "length s \<le> length (escape_str_attribute s) \<and> length (escape_str_attribute s) \<le> 6 * length s"
proof (induction s)
  case Nil
  show ?case by simp
next
  case (Cons c cs)
  with length_escape_char [of c] show ?case by simp
qed

text \<open>
  A string with none of the seven special characters is its own escape, so the
  escape only changes what it must.
\<close>

lemma escape_plain_id:
  "(\<forall>c \<in> set s. \<not> special c) \<Longrightarrow> escape_str_attribute s = s"
  by (induction s) (simp_all add: escape_char_plain)

text \<open>
  Read as an attribute value, the escaped text comes back with every tab turned into
  a space: the escape does not protect tabs from attribute-value normalisation.  So the
  attribute round trip holds exactly for the strings without a tab.
\<close>

lemma attr_value_parse_escape_map:
  "attr_value_parse (escape_str_attribute s) = map (\<lambda>c. if c = tab then CHR '' '' else c) s"
proof -
  have "map ws_to_space (escape_str_attribute s) =
        escape_str_attribute (map (\<lambda>c. if c = tab then CHR '' '' else c) s)"
    by (induction s) (simp_all add: ws_to_space_escape_char del: escape_char_def)
  then show ?thesis by (simp add: attr_value_parse_def unescape_escape)
qed

lemma attr_value_roundtrip_iff:
  "attr_value_parse (escape_str_attribute s) = s \<longleftrightarrow> tab \<notin> set s"
proof -
  have "map (\<lambda>c. if c = tab then CHR '' '' else c) s = s \<longleftrightarrow> tab \<notin> set s"
    by (induction s) (auto simp: tab_def)
  then show ?thesis by (simp add: attr_value_parse_escape_map)
qed

end
