(* ===== verification/Dlna_Interfaces.thy ===== *)
theory Dlna_Interfaces
  imports Dlna_Prelude
begin

text \<open>
  The two collaborators \<open>play\<close> (src/src/dlna.rs) receives as arguments; neither is
  part of the repository's sources, so both are modelled from their interface.
  \<^item> \<open>Render\<close> (\<open>crate::devices::Render\<close>): the renderer's control URL
    (\<open>render.device.url()\<close>) and its AVTransport service, whose \<open>action\<close> sends a named
    SOAP action with an XML payload to a URL and returns an error or success.  The success
    value is discarded by \<open>play\<close> and the error is only printed with \<open>{}\<close>, so the
    model keeps \<open>err_msg + unit\<close>: \<open>Inl\<close> the error's display text.  The field is a
    function, so one record describes how a renderer answers every call.
  \<^item> \<open>MediaStreamingServer\<close> (\<open>crate::streaming::MediaStreamingServer\<close>): the
    accessors \<open>video_uri\<close>, \<open>video_type\<close>, \<open>subtitle_uri\<close> and \<open>subtitle_type\<close>, which
    return the same value at every call, and the result that awaiting the task spawned
    on \<open>run()\<close> yields: \<open>Inl\<close> a \<open>JoinError\<close> (the task panicked or was cancelled), or
    \<open>Inr\<close> the value \<open>run()\<close> returned, of a type \<open>'v\<close> that \<open>play\<close> never inspects.
\<close>

record Render =
  device_url :: url
  service_action :: "url \<Rightarrow> string \<Rightarrow> string \<Rightarrow> err_msg + unit"

record 'v MediaStreamingServer =
  video_uri :: url
  video_type :: string
  subtitle_uri :: "url option"
  subtitle_type :: "string option"
  run_join :: "err_msg + 'v"

end
