(* ===== verification/Didl_Metadata.thy ===== *)
theory Didl_Metadata
  imports Xml_Escape Dlna_Interfaces
begin

text \<open>
  The metadata builder: lines 12 to 42 of src/src/dlna.rs.  \<open>didl_template\<close> is the raw
  string of the \<open>format!\<close> at lines 16 to 33, byte for byte (its indentation and the
  trailing blanks of lines 18 to 21 included), with a hole for each of the four named
  arguments; \<open>didl_args\<close> are the arguments of lines 34 to 37; \<open>payload_subtitle\<close> is
  the \<open>match\<close> on \<open>streaming_server.subtitle_uri()\<close>: empty without a subtitle, the
  attribute-escaped rendering of the template with one.  The lemmas give the document's
  shape (one \<open>item\<close>, the video subtype in the first resource's \<open>protocolInfo\<close>, five
  holes for the subtitle URI) and carry it through the escape.
\<close>

datatype didl_arg = Uri_video | Type_video | Uri_sub | Type_sub

definition didl_template :: "didl_arg piece list" where
  \<open>didl_template =
    [Txt (nl @
       ind 20 @ ''<DIDL-Lite xmlns="urn:schemas-upnp-org:metadata-1-0/DIDL-Lite/"'' @ nl @
       ind 31 @ ''xmlns:dc="http://purl.org/dc/elements/1.1/" '' @ nl @
       ind 31 @ ''xmlns:upnp="urn:schemas-upnp-org:metadata-1-0/upnp/" '' @ nl @
       ind 31 @ ''xmlns:dlna="urn:schemas-dlna-org:metadata-1-0/" '' @ nl @
       ind 31 @ ''xmlns:sec="http://www.sec.co.kr/" '' @ nl @
       ind 31 @ ''xmlns:xbmc="urn:schemas-xbmc-org:metadata-1-0/">'' @ nl @
       ind 24 @ ''<item id="0" parentID="-1" restricted="1">'' @ nl @
       ind 28 @ ''<dc:title>nano-dlna Video</dc:title>'' @ nl @
       ind 28 @ ''<res protocolInfo="http-get:*:video/''),
     Hole Type_video,
     Txt '':" xmlns:pv="http://www.pv.com/pvns/" pv:subtitleFileUri="'',
     Hole Uri_sub,
     Txt ''" pv:subtitleFileType="'',
     Hole Type_sub,
     Txt ''">'',
     Hole Uri_video,
     Txt (''</res>'' @ nl @ ind 28 @ ''<res protocolInfo="http-get:*:text/srt:*">''),
     Hole Uri_sub,
     Txt (''</res>'' @ nl @ ind 28 @ ''<res protocolInfo="http-get:*:smi/caption:*">''),
     Hole Uri_sub,
     Txt (''</res>'' @ nl @ ind 28 @ ''<sec:CaptionInfoEx sec:type="''),
     Hole Type_sub,
     Txt ''">'',
     Hole Uri_sub,
     Txt (''</sec:CaptionInfoEx>'' @ nl @ ind 28 @ ''<sec:CaptionInfo sec:type="''),
     Hole Type_sub,
     Txt ''">'',
     Hole Uri_sub,
     Txt (''</sec:CaptionInfo>'' @ nl @
       ind 28 @ ''<upnp:class>object.item.videoItem.movie</upnp:class>'' @ nl @
       ind 24 @ ''</item>'' @ nl @
       ind 20 @ ''</DIDL-Lite>'' @ nl @
       ind 20)]\<close>

definition didl_args :: "'v MediaStreamingServer \<Rightarrow> url \<Rightarrow> didl_arg \<Rightarrow> string" where
  "didl_args srv u a =
     (case a of
        Uri_video \<Rightarrow> video_uri srv
      | Type_video \<Rightarrow> video_type srv
      | Uri_sub \<Rightarrow> u
      | Type_sub \<Rightarrow> unwrap_or (subtitle_type srv) ''unknown'')"

definition didl_document :: "'v MediaStreamingServer \<Rightarrow> url \<Rightarrow> string" where
  "didl_document srv u = fmt (didl_args srv u) didl_template"

definition payload_subtitle :: "'v MediaStreamingServer \<Rightarrow> string" where
  "payload_subtitle srv =
     (case subtitle_uri srv of
        Some u \<Rightarrow> escape_str_attribute (didl_document srv u)
      | None \<Rightarrow> '''')"

subsection \<open>Shape of the document\<close>

lemma holes_didl_template:
  "holes didl_template =
     [Type_video, Uri_sub, Type_sub, Uri_video, Uri_sub, Uri_sub, Type_sub, Uri_sub, Type_sub, Uri_sub]"
  by (simp add: didl_template_def)

lemma didl_args_simps [simp]:
  "didl_args srv u Uri_video = video_uri srv"
  "didl_args srv u Type_video = video_type srv"
  "didl_args srv u Uri_sub = u"
  "didl_args srv u Type_sub = unwrap_or (subtitle_type srv) ''unknown''"
  by (simp_all add: didl_args_def)

lemma payload_subtitle_Some:
  "subtitle_uri srv = Some u \<Longrightarrow> payload_subtitle srv = escape_str_attribute (didl_document srv u)"
  by (simp add: payload_subtitle_def)

lemma unescape_payload_subtitle:
  "subtitle_uri srv = Some u \<Longrightarrow> unescape_xml (payload_subtitle srv) = didl_document srv u"
  by (simp add: payload_subtitle_Some unescape_escape)

lemma didl_video_resource:
  \<open>sublist (''<res protocolInfo="http-get:*:video/'' @ video_type srv @ '':"'') (didl_document srv u)\<close>
proof -
  have \<open>\<exists>s s' rest. didl_template = Txt s # Hole Type_video # Txt s' # rest \<and>
          suffix ''<res protocolInfo="http-get:*:video/'' s \<and> prefix '':"'' s'\<close>
    unfolding didl_template_def
    by (intro exI conjI, rule refl, intro suffix_appendI suffix_order.refl, simp)
  then obtain s s' rest where t: "didl_template = Txt s # Hole Type_video # Txt s' # rest"
    and s: \<open>suffix ''<res protocolInfo="http-get:*:video/'' s\<close> and s': \<open>prefix '':"'' s'\<close>
    by blast
  from sublist_fmt [OF s s', of "didl_args srv u" Type_video "[]" rest]
  show ?thesis by (simp add: t didl_document_def)
qed

lemma didl_subtitle_type:
  \<open>sublist (''pv:subtitleFileType="'' @ unwrap_or (subtitle_type srv) ''unknown'' @ ''">'')
     (didl_document srv u)\<close>
proof -
  have t: \<open>didl_template ! 4 = Txt ''" pv:subtitleFileType="''\<close>
    "didl_template ! Suc 4 = Hole Type_sub"
    \<open>didl_template ! Suc (Suc 4) = Txt ''">''\<close>
    "Suc (Suc 4) < length didl_template"
    by (simp_all add: didl_template_def)
  have pre: \<open>suffix ''pv:subtitleFileType="'' ''" pv:subtitleFileType="''\<close>
    by (simp add: suffix_to_prefix)
  have post: \<open>prefix ''">'' ''">''\<close>
    by simp
  from sublist_fmt_nth [OF t(4,1,2,3) pre post, of "didl_args srv u"]
  show ?thesis by (simp add: didl_document_def)
qed

lemma five_uri_sub:
  "5 \<le> length (filter (\<lambda>a. env a = env Uri_sub) (holes didl_template))"
  by (simp add: holes_didl_template)

subsection \<open>Properties of the metadata builder\<close>

text \<open>
  C5. Without a subtitle the metadata is the empty string: no \<open>item\<close>, not even an
  empty \<open>DIDL-Lite\<close> container.
\<close>

theorem payload_subtitle_none:
  "subtitle_uri srv = None \<Longrightarrow> payload_subtitle srv = ''''"
  by (simp add: payload_subtitle_def)

theorem payload_subtitle_none_witness:
  "subtitle_uri (\<lparr>video_uri = ''http://h/v.mp4'', video_type = ''mp4'', subtitle_uri = None,
       subtitle_type = None, run_join = Inr ()\<rparr> :: unit MediaStreamingServer) = None \<and> payload_subtitle (\<lparr>video_uri = ''http://h/v.mp4'', video_type = ''mp4'', subtitle_uri = None,
       subtitle_type = None, run_join = Inr ()\<rparr> :: unit MediaStreamingServer) = ''''"
  using payload_subtitle_none [of "\<lparr>video_uri = ''http://h/v.mp4'', video_type = ''mp4'', subtitle_uri = None,
       subtitle_type = None, run_join = Inr ()\<rparr> :: unit MediaStreamingServer"] by simp

text \<open>
  C15. With a subtitle, the document a renderer decodes from the metadata describes the
  video by a resource whose \<open>protocolInfo\<close> carries exactly the server's video subtype.
\<close>

theorem payload_video_protocol_info:
  \<open>subtitle_uri srv = Some u \<Longrightarrow>
   sublist (''<res protocolInfo="http-get:*:video/'' @ video_type srv @ '':"'')
     (unescape_xml (payload_subtitle srv))\<close>
  using didl_video_resource [of srv u] by (simp add: unescape_payload_subtitle)

theorem payload_video_protocol_info_witness:
  \<open>subtitle_uri (\<lparr>video_uri = ''http://h/v.mp4'', video_type = ''mp4'', subtitle_uri = Some ''http://h/s.srt'',
       subtitle_type = Some ''srt'', run_join = Inr ()\<rparr> :: unit MediaStreamingServer) = Some ''http://h/s.srt'' \<and>
   sublist (''<res protocolInfo="http-get:*:video/mp4:"'') (unescape_xml (payload_subtitle (\<lparr>video_uri = ''http://h/v.mp4'', video_type = ''mp4'', subtitle_uri = Some ''http://h/s.srt'',
       subtitle_type = Some ''srt'', run_join = Inr ()\<rparr> :: unit MediaStreamingServer)))\<close>
  using payload_video_protocol_info [of "\<lparr>video_uri = ''http://h/v.mp4'', video_type = ''mp4'', subtitle_uri = Some ''http://h/s.srt'',
       subtitle_type = Some ''srt'', run_join = Inr ()\<rparr> :: unit MediaStreamingServer" "''http://h/s.srt''"] by simp

text \<open>
  C16. With a subtitle whose URI is nonempty and needs no escaping, the metadata carries
  that URI at least five times: in the first resource's subtitle attribute, in the two
  alternate subtitle resources and in the two caption-info elements.
\<close>

theorem payload_subtitle_uri_occurrences:
  assumes "subtitle_uri srv = Some u" and "u \<noteq> []" and "\<forall>c \<in> set u. \<not> special c"
  shows "5 \<le> count_occ u (payload_subtitle srv)"
proof -
  let ?env = "escape_str_attribute \<circ> didl_args srv u"
  let ?t = "map_txt escape_str_attribute didl_template"
  have u: "?env Uri_sub = u"
    using assms(3) by (simp add: escape_plain_id)
  have "5 \<le> length (filter (\<lambda>a. ?env a = u) (holes ?t))"
    using five_uri_sub [of ?env] u by simp
  also have "\<dots> \<le> count_occ u (fmt ?env ?t)"
    by (rule count_occ_fmt_ge [OF assms(2)])
  also have "fmt ?env ?t = payload_subtitle srv"
    using assms(1) by (simp add: payload_subtitle_Some didl_document_def escape_fmt)
  finally show ?thesis .
qed

theorem payload_subtitle_uri_occurrences_witness:
  "subtitle_uri (\<lparr>video_uri = ''http://h/v.mp4'', video_type = ''mp4'', subtitle_uri = Some ''http://h/s.srt'',
       subtitle_type = Some ''srt'', run_join = Inr ()\<rparr> :: unit MediaStreamingServer) = Some ''http://h/s.srt'' \<and> ''http://h/s.srt'' \<noteq> [] \<and>
   5 \<le> count_occ ''http://h/s.srt'' (payload_subtitle (\<lparr>video_uri = ''http://h/v.mp4'', video_type = ''mp4'', subtitle_uri = Some ''http://h/s.srt'',
       subtitle_type = Some ''srt'', run_join = Inr ()\<rparr> :: unit MediaStreamingServer))"
proof -
  have h: "\<forall>c \<in> set ''http://h/s.srt''. \<not> special c"
    by (simp add: special_def char_defs)
  show ?thesis
    using h payload_subtitle_uri_occurrences [of "\<lparr>video_uri = ''http://h/v.mp4'', video_type = ''mp4'', subtitle_uri = Some ''http://h/s.srt'',
       subtitle_type = Some ''srt'', run_join = Inr ()\<rparr> :: unit MediaStreamingServer" "''http://h/s.srt''"] by simp
qed

text \<open>
  C23. When the server cannot tell the subtitle's subtype, the document names it
  \<open>unknown\<close> rather than failing.
\<close>

theorem payload_subtitle_type_unknown:
  \<open>subtitle_uri srv = Some u \<Longrightarrow> subtitle_type srv = None \<Longrightarrow>
   sublist ''pv:subtitleFileType="unknown">'' (unescape_xml (payload_subtitle srv))\<close>
  using didl_subtitle_type [of srv u] by (simp add: unescape_payload_subtitle)

theorem payload_subtitle_type_unknown_witness:
  \<open>subtitle_uri (\<lparr>video_uri = ''http://h/v.mp4'', video_type = ''mp4'', subtitle_uri = Some ''http://h/s.srt'',
       subtitle_type = None, run_join = Inr ()\<rparr> :: unit MediaStreamingServer) = Some ''http://h/s.srt'' \<and> subtitle_type (\<lparr>video_uri = ''http://h/v.mp4'', video_type = ''mp4'', subtitle_uri = Some ''http://h/s.srt'',
       subtitle_type = None, run_join = Inr ()\<rparr> :: unit MediaStreamingServer) = None \<and>
   sublist ''pv:subtitleFileType="unknown">'' (unescape_xml (payload_subtitle (\<lparr>video_uri = ''http://h/v.mp4'', video_type = ''mp4'', subtitle_uri = Some ''http://h/s.srt'',
       subtitle_type = None, run_join = Inr ()\<rparr> :: unit MediaStreamingServer)))\<close>
  using payload_subtitle_type_unknown [of "\<lparr>video_uri = ''http://h/v.mp4'', video_type = ''mp4'', subtitle_uri = Some ''http://h/s.srt'',
       subtitle_type = None, run_join = Inr ()\<rparr> :: unit MediaStreamingServer" "''http://h/s.srt''"] by simp

text \<open>
  C11. Round trip: resolving the references of the metadata gives back the DIDL-Lite
  document when there is a subtitle, and the empty string when there is none.
\<close>

theorem payload_subtitle_decodes:
  "unescape_xml (payload_subtitle srv) =
     (case subtitle_uri srv of Some u \<Rightarrow> didl_document srv u | None \<Rightarrow> [])"
  by (simp add: payload_subtitle_def unescape_escape split: option.split)

text \<open>
  C12. Safety: the metadata is a legal XML attribute value between double quotes, and so
  legal character data inside \<open>CurrentURIMetaData\<close>: no \<open><\<close>, no \<open>"\<close>, and every
  \<open>&\<close> starts a reference, whatever the URIs and subtypes hold.
\<close>

theorem payload_subtitle_legal:
  "xml_text_ok True (payload_subtitle srv)"
  by (simp add: payload_subtitle_def escape_xml_text_ok split: option.split)

text \<open>
  C22. Read as an XML attribute value, with attribute-value normalisation, the metadata
  gives back the document exactly when the document holds no tab: the escape leaves tabs
  as they are and the reader turns them into spaces.
\<close>

theorem payload_subtitle_attr_reading:
  "subtitle_uri srv = Some u \<Longrightarrow>
   (attr_value_parse (payload_subtitle srv) = didl_document srv u \<longleftrightarrow>
    tab \<notin> set (didl_document srv u))"
  by (simp add: payload_subtitle_Some attr_value_roundtrip_iff)

theorem payload_subtitle_attr_reading_witness:
  "subtitle_uri (\<lparr>video_uri = ''http://h/v.mp4'', video_type = ''mp4'', subtitle_uri = Some ''http://h/s.srt'',
       subtitle_type = Some ''srt'', run_join = Inr ()\<rparr> :: unit MediaStreamingServer) = Some ''http://h/s.srt'' \<and>
   (attr_value_parse (payload_subtitle (\<lparr>video_uri = ''http://h/v.mp4'', video_type = ''mp4'',
       subtitle_uri = Some ''http://h/s.srt'', subtitle_type = Some ''srt'', run_join = Inr ()\<rparr>
       :: unit MediaStreamingServer)) =
     didl_document (\<lparr>video_uri = ''http://h/v.mp4'', video_type = ''mp4'', subtitle_uri = Some ''http://h/s.srt'',
       subtitle_type = Some ''srt'', run_join = Inr ()\<rparr> :: unit MediaStreamingServer) ''http://h/s.srt'' \<longleftrightarrow>
    tab \<notin> set (didl_document (\<lparr>video_uri = ''http://h/v.mp4'', video_type = ''mp4'',
       subtitle_uri = Some ''http://h/s.srt'', subtitle_type = Some ''srt'', run_join = Inr ()\<rparr>
       :: unit MediaStreamingServer) ''http://h/s.srt''))"
  using payload_subtitle_attr_reading [of "\<lparr>video_uri = ''http://h/v.mp4'', video_type = ''mp4'',
       subtitle_uri = Some ''http://h/s.srt'', subtitle_type = Some ''srt'', run_join = Inr ()\<rparr>
       :: unit MediaStreamingServer" "''http://h/s.srt''"]
  by simp

end
