(* ===== verification/Control_Payloads.thy ===== *)
theory Control_Payloads
  imports Didl_Metadata
begin

text \<open>
  The two AVTransport action bodies of src/src/dlna.rs: the constant \<open>PAYLOAD_PLAY\<close>
  (lines 5 to 8) and the \<open>SetAVTransportURI\<close> body formatted at lines 44 to 51 from the
  video URI and the escaped metadata.  Both raw strings are kept byte for byte.
  \<open>start_tags\<close> lists the start tags of a body in order; with \<open>element_text\<close> of the
  prelude it reads the fields a renderer finds.  The lemmas show that the
  \<open>SetAVTransportURI\<close> body has exactly its protocol fields, in order, and what each
  field holds; the video URI is inserted without escaping, so its field holds the URI as
  it is.
\<close>

definition PAYLOAD_PLAY :: string where
  "PAYLOAD_PLAY =
     nl @
     ind 4 @ ''<InstanceID>0</InstanceID>'' @ nl @
     ind 4 @ ''<Speed>1</Speed>'' @ nl"

definition setav_template :: "nat piece list" where
  "setav_template =
    [Txt (nl @
       ind 8 @ ''<InstanceID>0</InstanceID>'' @ nl @
       ind 8 @ ''<CurrentURI>''),
     Hole 0,
     Txt (''</CurrentURI>'' @ nl @
       ind 8 @ ''<CurrentURIMetaData>''),
     Hole 1,
     Txt (''</CurrentURIMetaData>'' @ nl @
       ind 8)]"

definition payload_setavtransporturi :: "'v MediaStreamingServer \<Rightarrow> string" where
  "payload_setavtransporturi srv =
     fmt (\<lambda>i. [video_uri srv, payload_subtitle srv] ! i) setav_template"

subsection \<open>Reading the fields of a body\<close>

fun start_tags :: "string \<Rightarrow> string list" where
  "start_tags [] = []"
| "start_tags (c # cs) =
     (if c = CHR ''<'' \<and> cs \<noteq> [] \<and> hd cs \<noteq> CHR ''/''
      then takeWhile (\<lambda>d. d \<noteq> CHR ''>'' \<and> d \<noteq> CHR '' '') cs # start_tags cs
      else start_tags cs)"

lemma start_tags_skip [simp]:
  "CHR ''<'' \<notin> set u \<Longrightarrow> start_tags (u @ rest) = start_tags rest"
  by (induction u) auto

lemma takeWhile_no_lt [simp]:
  "CHR ''<'' \<notin> set u \<Longrightarrow> takeWhile (\<lambda>c. c \<noteq> CHR ''<'') (u @ rest) =
     u @ takeWhile (\<lambda>c. c \<noteq> CHR ''<'') rest"
  by (rule takeWhile_append2) auto

lemma after_tag_no_lt [simp]:
  "CHR ''<'' \<notin> set u \<Longrightarrow> after_tag (CHR ''<'' # tag) (u @ rest) = after_tag (CHR ''<'' # tag) rest"
  by (rule after_tag_skip) simp_all

lemma payload_subtitle_no_lt:
  "CHR ''<'' \<notin> set (payload_subtitle srv)"
  by (simp add: payload_subtitle_def special_not_in_escape special_def split: option.splits)

lemma payload_setav_unfold:
  "payload_setavtransporturi srv =
     (nl @ ind 8 @ ''<InstanceID>0</InstanceID>'' @ nl @ ind 8 @ ''<CurrentURI>'') @
     video_uri srv @
     (''</CurrentURI>'' @ nl @ ind 8 @ ''<CurrentURIMetaData>'') @
     payload_subtitle srv @
     ''</CurrentURIMetaData>'' @ nl @ ind 8"
  by (simp add: payload_setavtransporturi_def setav_template_def)

lemmas payload_field_simps = payload_setav_unfold payload_subtitle_no_lt numeral_eq_Suc element_text_def

lemma setav_metadata_field:
  "CHR ''<'' \<notin> set (video_uri srv) \<Longrightarrow>
   element_text ''CurrentURIMetaData'' (payload_setavtransporturi srv) = Some (payload_subtitle srv)"
  by (simp add: payload_field_simps)

lemma setav_uri_field:
  "CHR ''<'' \<notin> set (video_uri srv) \<Longrightarrow>
   element_text ''CurrentURI'' (payload_setavtransporturi srv) = Some (video_uri srv)"
  by (simp add: payload_field_simps)

subsection \<open>Properties of the action bodies\<close>

text \<open>
  C13. The \<open>SetAVTransportURI\<close> body has exactly the fields \<open>InstanceID\<close>,
  \<open>CurrentURI\<close> and \<open>CurrentURIMetaData\<close>, in this order: the instance is \<open>0\<close>, the
  current URI is the server's video URI and the metadata field holds the escaped metadata
  (empty without a subtitle).  The URI is assumed free of \<open><\<close>, as every URI is.
\<close>

theorem payload_setav_fields:
  assumes "CHR ''<'' \<notin> set (video_uri srv)"
  shows "start_tags (payload_setavtransporturi srv) = [''InstanceID'', ''CurrentURI'', ''CurrentURIMetaData''] \<and>
    element_text ''InstanceID'' (payload_setavtransporturi srv) = Some ''0'' \<and>
    element_text ''CurrentURI'' (payload_setavtransporturi srv) = Some (video_uri srv) \<and>
    element_text ''CurrentURIMetaData'' (payload_setavtransporturi srv) = Some (payload_subtitle srv)"
  using assms by (simp add: payload_field_simps)

theorem payload_setav_fields_witness:
  "CHR ''<'' \<notin> set (video_uri (\<lparr>video_uri = ''http://h/v.mp4'', video_type = ''mp4'',
      subtitle_uri = None, subtitle_type = None, run_join = Inr ()\<rparr> :: unit MediaStreamingServer)) \<and>
   element_text ''CurrentURI'' (payload_setavtransporturi (\<lparr>video_uri = ''http://h/v.mp4'',
      video_type = ''mp4'', subtitle_uri = None, subtitle_type = None, run_join = Inr ()\<rparr>
      :: unit MediaStreamingServer)) = Some ''http://h/v.mp4''"
  using payload_setav_fields [of "\<lparr>video_uri = ''http://h/v.mp4'', video_type = ''mp4'',
      subtitle_uri = None, subtitle_type = None, run_join = Inr ()\<rparr> :: unit MediaStreamingServer"]
  by simp

end
