(* ===== verification/Play_Session.thy ===== *)
theory Play_Session
  imports Control_Payloads
begin

text \<open>
  The orchestrator \<open>play\<close> of src/src/dlna.rs (lines 10 to 85) as a function of its two
  arguments.  Its effects are the events it causes, in order: the three \<open>println!\<close>s, the
  \<open>tokio::spawn\<close> of the streaming task, the two \<open>render.service.action\<close> calls with the
  result each returned, and the final \<open>await\<close> on the task's handle.  A panic of the
  source (the three \<open>unwrap_or_else(|e| panic!(\<dots>))\<close>) ends the function with the
  outcome \<open>Panicked\<close> and the panic message; normal return is \<open>Returned\<close>.  The
  renderer's answers come from \<open>service_action\<close> of the \<open>Render\<close> argument and the
  task's result from \<open>run_join\<close> of the server, so one pair of arguments fixes one run.
  The lemmas give the result on every branch: the \<open>SetAVTransportURI\<close> failure, the
  \<open>Play\<close> failure, and the completion of the task, which decides the outcome alone.
\<close>

datatype event =
    Println string
  | Spawn_streaming
  | Action url string string "err_msg + unit"
  | Await_streaming
  | Task_finished

datatype outcome = Returned | Panicked err_msg

text \<open>One \<open>render.service.action(url, name, payload).await\<close>: its result and its event.\<close>

definition call_action ::
  "Render \<Rightarrow> string \<Rightarrow> string \<Rightarrow> (err_msg + unit) \<times> event" where
  "call_action render name payload =
     (let r = service_action render (device_url render) name payload
      in (r, Action (device_url render) name payload r))"

definition msg_start :: string where "msg_start = ''Starting media streaming server...''"
definition msg_set_uri :: string where "msg_set_uri = ''Setting Video URI''"
definition msg_playing :: string where "msg_playing = ''Playing video''"
definition panic_setav :: string where "panic_setav = ''Unable to SetAVTransportURI, error: ''"
definition panic_play :: string where "panic_play = ''Unable to Play, error: ''"
definition panic_serving :: string where "panic_serving = ''Error while serving the media files: ''"

definition play :: "Render \<Rightarrow> 'v MediaStreamingServer \<Rightarrow> event list \<times> outcome" where
  "play render streaming_server =
     (let payload_setav = payload_setavtransporturi streaming_server;
          tr0 = [Println msg_start, Spawn_streaming, Println msg_set_uri];
          (r1, ev1) = call_action render ''SetAVTransportURI'' payload_setav
      in case r1 of
           Inl e \<Rightarrow> (tr0 @ [ev1], Panicked (panic_setav @ e))
         | Inr _ \<Rightarrow>
             (let tr1 = tr0 @ [ev1, Println msg_playing];
                  (r2, ev2) = call_action render ''Play'' PAYLOAD_PLAY
              in case r2 of
                   Inl e \<Rightarrow> (tr1 @ [ev2], Panicked (panic_play @ e))
                 | Inr _ \<Rightarrow>
                     (tr1 @ [ev2, Await_streaming],
                      case run_join streaming_server of
                        Inl e \<Rightarrow> Panicked (panic_serving @ e)
                      | Inr _ \<Rightarrow> Returned)))"

text \<open>The trace of \<open>play\<close> up to the \<open>Play\<close> call when \<open>SetAVTransportURI\<close> succeeds.\<close>

definition play_prefix :: "Render \<Rightarrow> 'v MediaStreamingServer \<Rightarrow> event list" where
  "play_prefix render srv =
     [Println ''Starting media streaming server...'', Spawn_streaming, Println ''Setting Video URI'',
      Action (device_url render) ''SetAVTransportURI'' (payload_setavtransporturi srv) (Inr ()),
      Println ''Playing video'']"

subsection \<open>The three branches of \<open>play\<close>\<close>

lemma call_action_simp:
  "call_action render name payload =
     (service_action render (device_url render) name payload,
      Action (device_url render) name payload (service_action render (device_url render) name payload))"
  by (simp add: call_action_def Let_def)

lemmas play_msgs = msg_start_def msg_set_uri_def msg_playing_def panic_setav_def panic_play_def
  panic_serving_def

lemma play_setav_ok:
  assumes "service_action render (device_url render) ''SetAVTransportURI''
             (payload_setavtransporturi srv) = Inr ()"
  shows "play render srv =
     (case service_action render (device_url render) ''Play'' PAYLOAD_PLAY of
        Inl e \<Rightarrow> (play_prefix render srv @ [Action (device_url render) ''Play'' PAYLOAD_PLAY (Inl e)],
                 Panicked (''Unable to Play, error: '' @ e))
      | Inr _ \<Rightarrow> (play_prefix render srv @ [Action (device_url render) ''Play'' PAYLOAD_PLAY (Inr ()),
                   Await_streaming],
                  case run_join srv of
                    Inl e \<Rightarrow> Panicked (''Error while serving the media files: '' @ e)
                  | Inr _ \<Rightarrow> Returned))"
  using assms unfolding play_def play_msgs
  by (cases "service_action render (device_url render) ''Play'' PAYLOAD_PLAY")
     (simp_all add: call_action_simp play_prefix_def Let_def)

subsection \<open>Properties of \<open>play\<close>\<close>

text \<open>
  C1. When the renderer rejects \<open>SetAVTransportURI\<close>, \<open>play\<close> has spawned the streaming
  task and made that one call; it never sends \<open>Play\<close> and never awaits the task, and it
  panics with a message naming the action and carrying the renderer's error.
\<close>

theorem play_setav_failure:
  assumes "service_action render (device_url render) ''SetAVTransportURI''
             (payload_setavtransporturi srv) = Inl e"
  shows "play render srv =
     ([Println ''Starting media streaming server...'', Spawn_streaming, Println ''Setting Video URI'',
       Action (device_url render) ''SetAVTransportURI'' (payload_setavtransporturi srv) (Inl e)],
      Panicked (''Unable to SetAVTransportURI, error: '' @ e))"
  using assms by (simp add: play_def call_action_simp play_msgs)

theorem play_setav_failure_witness:
  "service_action
      \<lparr>device_url = ''http://r/ctl'', service_action = (\<lambda>u n p. if n = ''Play'' then Inr () else Inl ''refused'')\<rparr>
      ''http://r/ctl'' ''SetAVTransportURI''
      (payload_setavtransporturi
         \<lparr>video_uri = ''http://h/v.mp4'', video_type = ''mp4'', subtitle_uri = None,
          subtitle_type = None, run_join = Inr ()\<rparr>) = Inl ''refused'' \<and>
   snd (play
      \<lparr>device_url = ''http://r/ctl'', service_action = (\<lambda>u n p. if n = ''Play'' then Inr () else Inl ''refused'')\<rparr>
      \<lparr>video_uri = ''http://h/v.mp4'', video_type = ''mp4'', subtitle_uri = None,
       subtitle_type = None, run_join = Inr ()\<rparr>) =
   Panicked ''Unable to SetAVTransportURI, error: refused''"
  using play_setav_failure [of
      "\<lparr>device_url = ''http://r/ctl'', service_action = (\<lambda>u n p. if n = ''Play'' then Inr () else Inl ''refused'')\<rparr>"
      "\<lparr>video_uri = ''http://h/v.mp4'', video_type = ''mp4'', subtitle_uri = None,
        subtitle_type = None, run_join = Inr ()\<rparr>" "''refused''"]
  by simp

text \<open>
  C2. When both calls succeed, \<open>play\<close> awaits the streaming task after \<open>Play\<close>, and the
  session's outcome is decided by the task alone: a \<open>JoinError\<close> becomes a panic naming
  the serving failure, any value the task returned becomes a normal return.
\<close>

theorem play_completion:
  assumes "service_action render (device_url render) ''SetAVTransportURI''
             (payload_setavtransporturi srv) = Inr ()"
    and "service_action render (device_url render) ''Play'' PAYLOAD_PLAY = Inr ()"
  shows "play render srv =
     (play_prefix render srv @ [Action (device_url render) ''Play'' PAYLOAD_PLAY (Inr ()), Await_streaming],
      case run_join srv of
        Inl e \<Rightarrow> Panicked (''Error while serving the media files: '' @ e)
      | Inr _ \<Rightarrow> Returned)"
  using play_setav_ok [OF assms(1)] assms(2) by simp

theorem play_completion_witness:
  "service_action \<lparr>device_url = ''http://r/ctl'', service_action = (\<lambda>u n p. Inr ())\<rparr>
      ''http://r/ctl'' ''SetAVTransportURI''
      (payload_setavtransporturi
         \<lparr>video_uri = ''http://h/v.mp4'', video_type = ''mp4'', subtitle_uri = None,
          subtitle_type = None, run_join = Inl ''task panicked''\<rparr>) = Inr () \<and>
   service_action \<lparr>device_url = ''http://r/ctl'', service_action = (\<lambda>u n p. Inr ())\<rparr>
      ''http://r/ctl'' ''Play'' PAYLOAD_PLAY = Inr () \<and>
   snd (play \<lparr>device_url = ''http://r/ctl'', service_action = (\<lambda>u n p. Inr ())\<rparr>
      (\<lparr>video_uri = ''http://h/v.mp4'', video_type = ''mp4'', subtitle_uri = None,
        subtitle_type = None, run_join = Inl ''task panicked''\<rparr> :: unit MediaStreamingServer)) =
   Panicked ''Error while serving the media files: task panicked''"
  using play_completion [of "\<lparr>device_url = ''http://r/ctl'', service_action = (\<lambda>u n p. Inr ())\<rparr>"
      "\<lparr>video_uri = ''http://h/v.mp4'', video_type = ''mp4'', subtitle_uri = None,
        subtitle_type = None, run_join = Inl ''task panicked''\<rparr> :: unit MediaStreamingServer"]
  by simp

text \<open>
  C14. When \<open>SetAVTransportURI\<close> succeeds and the renderer rejects \<open>Play\<close>, \<open>play\<close>
  panics with a message naming \<open>Play\<close> and the error, and never awaits the task.
\<close>

theorem play_play_failure:
  assumes "service_action render (device_url render) ''SetAVTransportURI''
             (payload_setavtransporturi srv) = Inr ()"
    and "service_action render (device_url render) ''Play'' PAYLOAD_PLAY = Inl e"
  shows "play render srv =
     (play_prefix render srv @ [Action (device_url render) ''Play'' PAYLOAD_PLAY (Inl e)],
      Panicked (''Unable to Play, error: '' @ e))"
  using play_setav_ok [OF assms(1)] assms(2) by simp

theorem play_play_failure_witness:
  "service_action
      \<lparr>device_url = ''http://r/ctl'', service_action = (\<lambda>u n p. if n = ''Play'' then Inl ''busy'' else Inr ())\<rparr>
      ''http://r/ctl'' ''SetAVTransportURI''
      (payload_setavtransporturi
         \<lparr>video_uri = ''http://h/v.mp4'', video_type = ''mp4'', subtitle_uri = None,
          subtitle_type = None, run_join = Inr ()\<rparr>) = Inr () \<and>
   service_action
      \<lparr>device_url = ''http://r/ctl'', service_action = (\<lambda>u n p. if n = ''Play'' then Inl ''busy'' else Inr ())\<rparr>
      ''http://r/ctl'' ''Play'' PAYLOAD_PLAY = Inl ''busy'' \<and>
   snd (play
      \<lparr>device_url = ''http://r/ctl'', service_action = (\<lambda>u n p. if n = ''Play'' then Inl ''busy'' else Inr ())\<rparr>
      \<lparr>video_uri = ''http://h/v.mp4'', video_type = ''mp4'', subtitle_uri = None,
       subtitle_type = None, run_join = Inr ()\<rparr>) = Panicked ''Unable to Play, error: busy''"
  using play_play_failure [of
      "\<lparr>device_url = ''http://r/ctl'', service_action = (\<lambda>u n p. if n = ''Play'' then Inl ''busy'' else Inr ())\<rparr>"
      "\<lparr>video_uri = ''http://h/v.mp4'', video_type = ''mp4'', subtitle_uri = None,
        subtitle_type = None, run_join = Inr ()\<rparr>" "''busy''"]
  by simp

end
