(* ===== verification/Play_Async.thy ===== *)
theory Play_Async
  imports Play_Session
begin

text \<open>
  The concurrent reading of \<open>play\<close> (src/src/dlna.rs lines 53 to 84).  After
  \<open>tokio::spawn\<close> the streaming task runs on its own and may end at any moment, before,
  between or after the two renderer calls; the orchestrator meanwhile runs its statements
  one by one and blocks only at the final \<open>await\<close>.  A \<open>session\<close> holds the
  orchestrator's position (\<open>phase\<close>, one per statement of lines 53 to 84, with the
  spec's state names where they exist), the task's state and the trace of events.
  \<open>play_step url payload\<close> relates a session to the next: one rule per statement, the
  renderer's answer to each action left open (any result), and one rule for the task
  ending with any result.  The task has no cancellation step because the code never
  cancels it: a panic of the orchestrator drops the handle, which detaches the task.
  The lemmas: an invariant by rule induction fixing the orchestrator's part of the trace
  in every phase; the ordering of the calls in every interleaving; progress and a bound
  of eight steps on every run; that \<open>play\<close> is one run of this machine (refinement);
  and two runs the spec excludes.
\<close>

datatype phase =
    Idle
  | Announced
  | Streaming_started
  | Setting_uri
  | Transport_uri_set
  | Play_pending
  | Playing
  | Completed
  | Failed err_msg

datatype 'v task = Not_spawned | Running | Finished "err_msg + 'v"

record 'v session =
  phase :: phase
  task :: "'v task"
  trace :: "event list"

definition init_session :: "'v session" where
  "init_session = \<lparr>phase = Idle, task = Not_spawned, trace = []\<rparr>"

inductive play_step :: "url \<Rightarrow> string \<Rightarrow> 'v session \<Rightarrow> 'v session \<Rightarrow> bool"
  for url :: url and payload :: string where
  announce:
    "phase s = Idle \<Longrightarrow>
     play_step url payload s (s\<lparr>phase := Announced, trace := trace s @ [Println msg_start]\<rparr>)"
| spawn:
    "phase s = Announced \<Longrightarrow>
     play_step url payload s
       (s\<lparr>phase := Streaming_started, task := Running, trace := trace s @ [Spawn_streaming]\<rparr>)"
| announce_uri:
    "phase s = Streaming_started \<Longrightarrow>
     play_step url payload s (s\<lparr>phase := Setting_uri, trace := trace s @ [Println msg_set_uri]\<rparr>)"
| set_uri:
    "phase s = Setting_uri \<Longrightarrow>
     play_step url payload s
       (s\<lparr>phase := (case r of Inl e \<Rightarrow> Failed (panic_setav @ e) | Inr _ \<Rightarrow> Transport_uri_set),
          trace := trace s @ [Action url ''SetAVTransportURI'' payload r]\<rparr>)"
| announce_play:
    "phase s = Transport_uri_set \<Longrightarrow>
     play_step url payload s (s\<lparr>phase := Play_pending, trace := trace s @ [Println msg_playing]\<rparr>)"
| send_play:
    "phase s = Play_pending \<Longrightarrow>
     play_step url payload s
       (s\<lparr>phase := (case r of Inl e \<Rightarrow> Failed (panic_play @ e) | Inr _ \<Rightarrow> Playing),
          trace := trace s @ [Action url ''Play'' PAYLOAD_PLAY r]\<rparr>)"
| join:
    "phase s = Playing \<Longrightarrow> task s = Finished r \<Longrightarrow>
     play_step url payload s
       (s\<lparr>phase := (case r of Inl e \<Rightarrow> Failed (panic_serving @ e) | Inr _ \<Rightarrow> Completed),
          trace := trace s @ [Await_streaming]\<rparr>)"
| task_ends:
    "task s = Running \<Longrightarrow>
     play_step url payload s (s\<lparr>task := Finished r, trace := trace s @ [Task_finished]\<rparr>)"

inductive reach :: "url \<Rightarrow> string \<Rightarrow> 'v session \<Rightarrow> bool" for url :: url and payload :: string where
  start: "reach url payload init_session"
| step: "reach url payload s \<Longrightarrow> play_step url payload s s' \<Longrightarrow> reach url payload s'"

text \<open>The outcome of an ended session, as \<open>play\<close> reports it.\<close>

fun phase_outcome :: "phase \<Rightarrow> outcome option" where
  "phase_outcome Completed = Some Returned"
| "phase_outcome (Failed m) = Some (Panicked m)"
| "phase_outcome _ = None"

text \<open>The orchestrator's own events: the trace without the task's.\<close>

definition orch :: "event list \<Rightarrow> event list" where
  "orch tr = filter (\<lambda>e. e \<noteq> Task_finished) tr"

text \<open>The orchestrator's events of a run in which both calls succeed.\<close>

definition full_run :: "url \<Rightarrow> string \<Rightarrow> event list" where
  "full_run url payload =
     [Println msg_start, Spawn_streaming, Println msg_set_uri,
      Action url ''SetAVTransportURI'' payload (Inr ()), Println msg_playing,
      Action url ''Play'' PAYLOAD_PLAY (Inr ()), Await_streaming]"

fun phase_index :: "phase \<Rightarrow> nat" where
  "phase_index Idle = 0"
| "phase_index Announced = 1"
| "phase_index Streaming_started = 2"
| "phase_index Setting_uri = 3"
| "phase_index Transport_uri_set = 4"
| "phase_index Play_pending = 5"
| "phase_index Playing = 6"
| "phase_index Completed = 7"
| "phase_index (Failed _) = 0"

text \<open>
  The invariant: the orchestrator's events are the prefix of \<open>full_run\<close> its phase has
  reached, or that prefix ended by the one failing call; the task exists exactly after
  the spawn, and a completed session has a task that returned.
\<close>

definition session_inv :: "url \<Rightarrow> string \<Rightarrow> 'v session \<Rightarrow> bool" where
  "session_inv url payload s \<longleftrightarrow>
     (case phase s of
        Failed m \<Rightarrow>
          (\<exists>e. (orch (trace s) = take 3 (full_run url payload) @
                   [Action url ''SetAVTransportURI'' payload (Inl e)] \<and> m = panic_setav @ e) \<or>
               (orch (trace s) = take 5 (full_run url payload) @
                   [Action url ''Play'' PAYLOAD_PLAY (Inl e)] \<and> m = panic_play @ e) \<or>
               (orch (trace s) = full_run url payload \<and> task s = Finished (Inl e) \<and>
                   m = panic_serving @ e))
      | Completed \<Rightarrow> orch (trace s) = full_run url payload \<and> (\<exists>v. task s = Finished (Inr v))
      | ph \<Rightarrow> orch (trace s) = take (phase_index ph) (full_run url payload)) \<and>
     (task s = Not_spawned \<longleftrightarrow> phase s \<in> {Idle, Announced})"

text \<open>The ordering the spec demands of every trace.\<close>

definition calls_ordered :: "url \<Rightarrow> string \<Rightarrow> event list \<Rightarrow> bool" where
  "calls_ordered url payload tr \<longleftrightarrow>
     (\<forall>xs a ys. tr = xs @ a # ys \<longrightarrow>
        (\<forall>q r. a = Action url ''Play'' q r \<longrightarrow>
           Action url ''SetAVTransportURI'' payload (Inr ()) \<in> set xs) \<and>
        (\<forall>q r. a = Action url ''SetAVTransportURI'' q r \<longrightarrow> Spawn_streaming \<in> set xs))"

text \<open>A bound on the steps left: the orchestrator's statements and the task's end.\<close>

fun steps_left :: "phase \<Rightarrow> nat" where
  "steps_left Idle = 7"
| "steps_left Announced = 6"
| "steps_left Streaming_started = 5"
| "steps_left Setting_uri = 4"
| "steps_left Transport_uri_set = 3"
| "steps_left Play_pending = 2"
| "steps_left Playing = 1"
| "steps_left Completed = 0"
| "steps_left (Failed _) = 0"

definition rank :: "'v session \<Rightarrow> nat" where
  "rank s = steps_left (phase s) + (case task s of Finished _ \<Rightarrow> 0 | _ \<Rightarrow> 1)"

subsection \<open>The machine as a function of a schedule\<close>

text \<open>
  A move of the scheduler: the orchestrator runs its next statement (with the renderer's
  answer, used when the statement is an action), or the task ends with a result.
  \<open>run_moves\<close> replays a schedule and fails on a move that is not enabled.
\<close>

datatype 'v move = Orch "err_msg + unit" | Task_ends "err_msg + 'v"

fun orch_next :: "url \<Rightarrow> string \<Rightarrow> err_msg + unit \<Rightarrow> 'v session \<Rightarrow> 'v session option" where
  "orch_next url payload r s =
     (case phase s of
        Idle \<Rightarrow> Some (s\<lparr>phase := Announced, trace := trace s @ [Println msg_start]\<rparr>)
      | Announced \<Rightarrow>
          Some (s\<lparr>phase := Streaming_started, task := Running, trace := trace s @ [Spawn_streaming]\<rparr>)
      | Streaming_started \<Rightarrow> Some (s\<lparr>phase := Setting_uri, trace := trace s @ [Println msg_set_uri]\<rparr>)
      | Setting_uri \<Rightarrow>
          Some (s\<lparr>phase := (case r of Inl e \<Rightarrow> Failed (panic_setav @ e) | Inr _ \<Rightarrow> Transport_uri_set),
                  trace := trace s @ [Action url ''SetAVTransportURI'' payload r]\<rparr>)
      | Transport_uri_set \<Rightarrow> Some (s\<lparr>phase := Play_pending, trace := trace s @ [Println msg_playing]\<rparr>)
      | Play_pending \<Rightarrow>
          Some (s\<lparr>phase := (case r of Inl e \<Rightarrow> Failed (panic_play @ e) | Inr _ \<Rightarrow> Playing),
                  trace := trace s @ [Action url ''Play'' PAYLOAD_PLAY r]\<rparr>)
      | Playing \<Rightarrow>
          (case task s of
             Finished rj \<Rightarrow>
               Some (s\<lparr>phase := (case rj of Inl e \<Rightarrow> Failed (panic_serving @ e) | Inr _ \<Rightarrow> Completed),
                       trace := trace s @ [Await_streaming]\<rparr>)
           | _ \<Rightarrow> None)
      | Completed \<Rightarrow> None
      | Failed _ \<Rightarrow> None)"

fun move_next :: "url \<Rightarrow> string \<Rightarrow> 'v move \<Rightarrow> 'v session \<Rightarrow> 'v session option" where
  "move_next url payload (Orch r) s = orch_next url payload r s"
| "move_next url payload (Task_ends rj) s =
     (if task s = Running then Some (s\<lparr>task := Finished rj, trace := trace s @ [Task_finished]\<rparr>)
      else None)"

fun run_moves :: "url \<Rightarrow> string \<Rightarrow> 'v move list \<Rightarrow> 'v session \<Rightarrow> 'v session option" where
  "run_moves url payload [] s = Some s"
| "run_moves url payload (m # ms) s =
     (case move_next url payload m s of
        None \<Rightarrow> None
      | Some s' \<Rightarrow> run_moves url payload ms s')"

text \<open>The schedule \<open>play\<close> observes: the task ends just before it is awaited.\<close>

definition play_moves :: "err_msg + unit \<Rightarrow> err_msg + unit \<Rightarrow> err_msg + 'v \<Rightarrow> 'v move list" where
  "play_moves r1 r2 rj =
     [Orch (Inr ()), Orch (Inr ()), Orch (Inr ()), Orch r1] @
     (case r1 of
        Inl _ \<Rightarrow> []
      | Inr _ \<Rightarrow> [Orch (Inr ()), Orch r2] @
          (case r2 of Inl _ \<Rightarrow> [] | Inr _ \<Rightarrow> [Task_ends rj, Orch (Inr ())]))"

subsection \<open>Steps and schedules\<close>

lemmas play_step_simps = orch_next.simps move_next.simps

lemma play_step_move_next: "play_step url payload s s' \<Longrightarrow> \<exists>m. move_next url payload m s = Some s'"
proof (induction rule: play_step.induct)
  case (join s r)
  then show ?case by (intro exI [of _ "Orch (Inr ())"]) simp
next
  case (task_ends s r)
  then show ?case by (intro exI [of _ "Task_ends r"]) simp
qed (auto intro: exI [of _ "Orch r" for r])

lemma move_next_play_step: "move_next url payload m s = Some s' \<Longrightarrow> play_step url payload s s'"
proof (cases m)
  case (Orch r)
  assume "move_next url payload m s = Some s'"
  with Orch show ?thesis
    by (cases "phase s") (auto intro: play_step.intros split: task.splits)
next
  case (Task_ends rj)
  assume "move_next url payload m s = Some s'"
  with Task_ends show ?thesis
    by (auto intro: play_step.intros split: if_splits)
qed

lemma play_step_iff: "play_step url payload s s' \<longleftrightarrow> (\<exists>m. move_next url payload m s = Some s')"
  by (blast intro: play_step_move_next move_next_play_step)

lemma reach_run_moves:
  "reach url payload s \<Longrightarrow> run_moves url payload ms s = Some s' \<Longrightarrow> reach url payload s'"
proof (induction ms arbitrary: s)
  case Nil
  then show ?case by simp
next
  case (Cons m ms)
  then obtain t where t: "move_next url payload m s = Some t"
    and rest: "run_moves url payload ms t = Some s'"
    by (auto split: option.splits)
  from Cons.prems(1) move_next_play_step [OF t] have "reach url payload t"
    by (rule reach.step)
  then show ?case using rest by (rule Cons.IH)
qed

lemma run_moves_relpowp:
  "run_moves url payload ms s = Some s' \<Longrightarrow> (play_step url payload ^^ length ms) s s'"
proof (induction ms arbitrary: s)
  case Nil
  then show ?case by simp
next
  case (Cons m ms)
  then obtain t where t: "move_next url payload m s = Some t"
    and rest: "run_moves url payload ms t = Some s'"
    by (auto split: option.splits)
  have "(play_step url payload ^^ Suc (length ms)) s s'"
    by (rule relpowp_Suc_I2 [OF move_next_play_step [OF t] Cons.IH [OF rest]])
  then show ?case by (simp only: length_Cons)
qed

subsection \<open>The invariant\<close>

lemma orch_snoc [simp]:
  "orch (tr @ [e]) = (if e = Task_finished then orch tr else orch tr @ [e])"
  by (simp add: orch_def)

lemma orch_Nil [simp]: "orch [] = []"
  by (simp add: orch_def)

lemma set_orch: "x \<in> set (orch tr) \<Longrightarrow> x \<in> set tr"
  by (simp add: orch_def)

lemma session_inv_start: "session_inv url payload init_session"
  by (simp add: session_inv_def init_session_def)

lemma play_step_session_inv:
  "play_step url payload s s' \<Longrightarrow> session_inv url payload s \<Longrightarrow> session_inv url payload s'"
proof (induction rule: play_step.induct)
  case (set_uri s r)
  then show ?case by (cases r) (simp_all add: session_inv_def full_run_def)
next
  case (send_play s r)
  then show ?case by (cases r) (simp_all add: session_inv_def full_run_def)
next
  case (join s r)
  then show ?case by (cases r) (auto simp: session_inv_def full_run_def)
next
  case (task_ends s r)
  then show ?case by (cases "phase s") (auto simp: session_inv_def)
qed (simp_all add: session_inv_def full_run_def)

lemma reach_session_inv: "reach url payload s \<Longrightarrow> session_inv url payload s"
  by (induction rule: reach.induct) (auto intro: session_inv_start play_step_session_inv)

lemma session_inv_spawned:
  "session_inv url payload s \<Longrightarrow> phase s = Setting_uri \<Longrightarrow> Spawn_streaming \<in> set (trace s)"
  by (auto simp: session_inv_def full_run_def intro: set_orch)

lemma session_inv_uri_set:
  "session_inv url payload s \<Longrightarrow> phase s = Play_pending \<Longrightarrow>
   Action url ''SetAVTransportURI'' payload (Inr ()) \<in> set (trace s)"
  by (auto simp: session_inv_def full_run_def intro: set_orch)

lemma session_inv_task:
  "session_inv url payload s \<Longrightarrow> phase s = Playing \<Longrightarrow> task s \<noteq> Not_spawned"
  by (simp add: session_inv_def)

subsection \<open>Ordering of the calls\<close>

lemma calls_ordered_snoc:
  "calls_ordered url payload (tr @ [a]) \<longleftrightarrow>
   calls_ordered url payload tr \<and>
   (\<forall>q r. a = Action url ''Play'' q r \<longrightarrow> Action url ''SetAVTransportURI'' payload (Inr ()) \<in> set tr) \<and>
   (\<forall>q r. a = Action url ''SetAVTransportURI'' q r \<longrightarrow> Spawn_streaming \<in> set tr)"
  (is "?l \<longleftrightarrow> ?r")
proof
  assume h: ?l
  have "calls_ordered url payload tr"
    unfolding calls_ordered_def
  proof (intro allI impI)
    fix xs b ys
    assume "tr = xs @ b # ys"
    then have "tr @ [a] = xs @ b # (ys @ [a])" by simp
    with h show "(\<forall>q r. b = Action url ''Play'' q r \<longrightarrow>
                   Action url ''SetAVTransportURI'' payload (Inr ()) \<in> set xs) \<and>
                 (\<forall>q r. b = Action url ''SetAVTransportURI'' q r \<longrightarrow> Spawn_streaming \<in> set xs)"
      unfolding calls_ordered_def by blast
  qed
  moreover have "tr @ [a] = tr @ a # []" by simp
  ultimately show ?r using h unfolding calls_ordered_def by blast
next
  assume h: ?r
  show ?l
    unfolding calls_ordered_def
  proof (intro allI impI)
    fix xs b ys
    assume eq: "tr @ [a] = xs @ b # ys"
    show "(\<forall>q r. b = Action url ''Play'' q r \<longrightarrow>
             Action url ''SetAVTransportURI'' payload (Inr ()) \<in> set xs) \<and>
          (\<forall>q r. b = Action url ''SetAVTransportURI'' q r \<longrightarrow> Spawn_streaming \<in> set xs)"
    proof (cases ys rule: rev_cases)
      case Nil
      with eq have "xs = tr" and "b = a" by auto
      with h show ?thesis by blast
    next
      case (snoc ys' c)
      with eq have "tr = xs @ b # ys'" by auto
      with h show ?thesis unfolding calls_ordered_def by blast
    qed
  qed
qed

lemma reach_calls_ordered: "reach url payload s \<Longrightarrow> calls_ordered url payload (trace s)"
proof (induction rule: reach.induct)
  case start
  show ?case by (simp add: init_session_def calls_ordered_def)
next
  case (step s s')
  have inv: "session_inv url payload s"
    using step.hyps(1) by (rule reach_session_inv)
  from step.hyps(2) show ?case
  proof (cases rule: play_step.cases)
    case set_uri
    with step.IH inv show ?thesis by (auto simp: calls_ordered_snoc dest: session_inv_spawned)
  next
    case send_play
    with step.IH inv show ?thesis by (auto simp: calls_ordered_snoc dest: session_inv_uri_set)
  qed (use step.IH in \<open>simp_all add: calls_ordered_snoc\<close>)
qed

subsection \<open>Progress and the bound on runs\<close>

lemma play_step_rank:
  "play_step url payload s s' \<Longrightarrow> session_inv url payload s \<Longrightarrow> rank s' < rank s"
  by (induction rule: play_step.induct) (auto simp: rank_def session_inv_def split: sum.splits task.splits)

lemma relpowp_rank:
  "(play_step url payload ^^ n) s s' \<Longrightarrow> session_inv url payload s \<Longrightarrow>
   n + rank s' \<le> rank s \<and> session_inv url payload s'"
proof (induction n arbitrary: s')
  case 0
  then show ?case by simp
next
  case (Suc n)
  then obtain t where t: "(play_step url payload ^^ n) s t" and st: "play_step url payload t s'"
    by auto
  from Suc.IH [OF t Suc.prems(2)] have "n + rank t \<le> rank s" and inv: "session_inv url payload t"
    by simp_all
  with play_step_rank [OF st inv] play_step_session_inv [OF st inv] show ?case by simp
qed

lemma rank_init: "rank init_session = 8"
  by (simp add: rank_def init_session_def)

subsection \<open>Properties of the concurrent session\<close>

text \<open>
  C3. In every interleaving of the orchestrator with the streaming task, whatever the
  renderer answers, \<open>Play\<close> is sent only after a \<open>SetAVTransportURI\<close> that succeeded, and
  \<open>SetAVTransportURI\<close> only after the streaming task was spawned.
\<close>

theorem session_calls_ordered:
  assumes "reach url payload s" and "trace s = xs @ a # ys"
  shows "(a = Action url ''Play'' q r \<longrightarrow>
            Action url ''SetAVTransportURI'' payload (Inr ()) \<in> set xs) \<and>
         (a = Action url ''SetAVTransportURI'' q r \<longrightarrow> Spawn_streaming \<in> set xs)"
  using reach_calls_ordered [OF assms(1)] assms(2) unfolding calls_ordered_def by blast

theorem session_calls_ordered_witness:
  "reach ''http://r/ctl'' ''body''
     (\<lparr>phase = Playing, task = Running,
      trace = [Println msg_start, Spawn_streaming, Println msg_set_uri,
               Action ''http://r/ctl'' ''SetAVTransportURI'' ''body'' (Inr ()), Println msg_playing,
               Action ''http://r/ctl'' ''Play'' PAYLOAD_PLAY (Inr ())]\<rparr> :: unit session) \<and>
   Action ''http://r/ctl'' ''SetAVTransportURI'' ''body'' (Inr ()) \<in>
     set [Println msg_start, Spawn_streaming, Println msg_set_uri,
          Action ''http://r/ctl'' ''SetAVTransportURI'' ''body'' (Inr ()), Println msg_playing]"
proof -
  have r: "reach ''http://r/ctl'' ''body''
     (\<lparr>phase = Playing, task = Running,
      trace = [Println msg_start, Spawn_streaming, Println msg_set_uri,
               Action ''http://r/ctl'' ''SetAVTransportURI'' ''body'' (Inr ()), Println msg_playing,
               Action ''http://r/ctl'' ''Play'' PAYLOAD_PLAY (Inr ())]\<rparr> :: unit session)"
    by (rule reach_run_moves [OF reach.start, where ms = "replicate 6 (Orch (Inr ()))"])
       (simp add: init_session_def numeral_eq_Suc)
  show ?thesis
    using session_calls_ordered [OF r, of "[Println msg_start, Spawn_streaming, Println msg_set_uri,
          Action ''http://r/ctl'' ''SetAVTransportURI'' ''body'' (Inr ()), Println msg_playing]"
        "Action ''http://r/ctl'' ''Play'' PAYLOAD_PLAY (Inr ())" "[]" PAYLOAD_PLAY "Inr ()"] r
    by simp
qed

text \<open>
  C17. Termination: every run of the session machine from the start has at most eight
  steps, the seven statements of the orchestrator and the end of the task.
\<close>

theorem session_runs_bounded:
  fixes s :: "'v session"
  assumes "(play_step url payload ^^ n) init_session s"
  shows "n \<le> 8"
proof -
  have "n + rank s \<le> rank (init_session :: 'v session) \<and> session_inv url payload s"
    by (rule relpowp_rank [OF assms session_inv_start])
  then show ?thesis by (simp add: rank_init)
qed

theorem session_runs_bounded_witness:
  "(play_step ''http://r/ctl'' ''body'' ^^ 8) init_session
     (\<lparr>phase = Completed, task = Finished (Inr ()),
       trace = [Println msg_start, Spawn_streaming, Println msg_set_uri,
                Action ''http://r/ctl'' ''SetAVTransportURI'' ''body'' (Inr ()), Println msg_playing,
                Action ''http://r/ctl'' ''Play'' PAYLOAD_PLAY (Inr ()), Task_finished,
                Await_streaming]\<rparr> :: unit session) \<and> (8::nat) \<le> 8"
proof -
  have r: "(play_step ''http://r/ctl'' ''body'' ^^ 8) init_session
     (\<lparr>phase = Completed, task = Finished (Inr ()),
       trace = [Println msg_start, Spawn_streaming, Println msg_set_uri,
                Action ''http://r/ctl'' ''SetAVTransportURI'' ''body'' (Inr ()), Println msg_playing,
                Action ''http://r/ctl'' ''Play'' PAYLOAD_PLAY (Inr ()), Task_finished,
                Await_streaming]\<rparr> :: unit session)"
    using run_moves_relpowp [of "''http://r/ctl''" "''body''" "play_moves (Inr ()) (Inr ()) (Inr ())"]
    by (simp add: play_moves_def init_session_def numeral_eq_Suc)
  show ?thesis using r session_runs_bounded [OF r] by simp
qed

text \<open>
  C18. Progress: a reachable session that has not ended can always take a step; it
  waits only at the final \<open>await\<close>, and only while the task runs, which can then end.
\<close>

theorem session_progress:
  assumes "reach url payload s" and "phase_outcome (phase s) = None"
  shows "\<exists>s'. play_step url payload s s'"
proof -
  have inv: "session_inv url payload s"
    using assms(1) by (rule reach_session_inv)
  show ?thesis
  proof (cases "phase s")
    case Playing
    with inv have "task s \<noteq> Not_spawned" by (rule session_inv_task)
    with Playing show ?thesis
      by (cases "task s") (blast intro: play_step.task_ends play_step.join)+
  qed (use assms(2) in \<open>auto intro: play_step.intros\<close>)
qed

theorem session_progress_witness:
  "reach ''http://r/ctl'' ''body'' (init_session :: unit session) \<and>
   phase_outcome (phase (init_session :: unit session)) = None \<and>
   (\<exists>s'. play_step ''http://r/ctl'' ''body'' (init_session :: unit session) s')"
proof -
  have h: "phase_outcome (phase (init_session :: unit session)) = None"
    by (simp add: init_session_def)
  show ?thesis
    using reach.start h session_progress [OF reach.start h] by blast
qed

text \<open>
  C21. A session that completes has made exactly the events of a successful run, in
  order, and its task has returned.
\<close>

theorem session_completed:
  assumes "reach url payload s" and "phase s = Completed"
  shows "orch (trace s) = full_run url payload \<and> (\<exists>v. task s = Finished (Inr v))"
  using reach_session_inv [OF assms(1)] assms(2) by (simp add: session_inv_def)

theorem session_completed_witness:
  "reach ''http://r/ctl'' ''body''
     (\<lparr>phase = Completed, task = Finished (Inr ()),
       trace = [Println msg_start, Spawn_streaming, Println msg_set_uri,
                Action ''http://r/ctl'' ''SetAVTransportURI'' ''body'' (Inr ()), Println msg_playing,
                Action ''http://r/ctl'' ''Play'' PAYLOAD_PLAY (Inr ()), Task_finished,
                Await_streaming]\<rparr> :: unit session) \<and>
   orch [Println msg_start, Spawn_streaming, Println msg_set_uri,
         Action ''http://r/ctl'' ''SetAVTransportURI'' ''body'' (Inr ()), Println msg_playing,
         Action ''http://r/ctl'' ''Play'' PAYLOAD_PLAY (Inr ()), Task_finished, Await_streaming] =
   full_run ''http://r/ctl'' ''body''"
proof -
  have r: "reach ''http://r/ctl'' ''body''
     (\<lparr>phase = Completed, task = Finished (Inr ()),
       trace = [Println msg_start, Spawn_streaming, Println msg_set_uri,
                Action ''http://r/ctl'' ''SetAVTransportURI'' ''body'' (Inr ()), Println msg_playing,
                Action ''http://r/ctl'' ''Play'' PAYLOAD_PLAY (Inr ()), Task_finished,
                Await_streaming]\<rparr> :: unit session)"
    by (rule reach_run_moves [OF reach.start, where ms = "play_moves (Inr ()) (Inr ()) (Inr ())"])
       (simp add: play_moves_def init_session_def)
  show ?thesis using r session_completed [OF r] by simp
qed

text \<open>
  C19. The streaming task is not cancelled when the session fails: after a rejected
  \<open>SetAVTransportURI\<close> the orchestrator has ended with its panic while the task it
  spawned is still running (the dropped handle detaches it).
\<close>

theorem session_failure_leaves_task_running:
  "\<exists>s. reach url payload s \<and> phase s = Failed (panic_setav @ e) \<and> task s = Running"
proof -
  have "run_moves url payload [Orch (Inr ()), Orch (Inr ()), Orch (Inr ()), Orch (Inl e)] init_session =
        Some \<lparr>phase = Failed (panic_setav @ e), task = Running,
              trace = [Println msg_start, Spawn_streaming, Println msg_set_uri,
                       Action url ''SetAVTransportURI'' payload (Inl e)]\<rparr>"
    by (simp add: init_session_def)
  then show ?thesis using reach_run_moves [OF reach.start] by fastforce
qed

text \<open>
  C20. A failure of the streaming task right after it is spawned does not stop the
  session: the orchestrator still sends \<open>SetAVTransportURI\<close> and \<open>Play\<close>, and reports the
  failure only at the final \<open>await\<close>.
\<close>

theorem session_task_failure_not_fatal_early:
  "\<exists>s. reach url payload s \<and>
       trace s = [Println msg_start, Spawn_streaming, Task_finished, Println msg_set_uri,
                  Action url ''SetAVTransportURI'' payload (Inr ()), Println msg_playing,
                  Action url ''Play'' PAYLOAD_PLAY (Inr ()), Await_streaming] \<and>
       phase s = Failed (panic_serving @ e)"
proof -
  have "run_moves url payload
          [Orch (Inr ()), Orch (Inr ()), Task_ends (Inl e), Orch (Inr ()), Orch (Inr ()),
           Orch (Inr ()), Orch (Inr ()), Orch (Inr ())] init_session =
        Some \<lparr>phase = Failed (panic_serving @ e), task = Finished (Inl e),
              trace = [Println msg_start, Spawn_streaming, Task_finished, Println msg_set_uri,
                       Action url ''SetAVTransportURI'' payload (Inr ()), Println msg_playing,
                       Action url ''Play'' PAYLOAD_PLAY (Inr ()), Await_streaming]\<rparr>"
    by (simp add: init_session_def)
  then show ?thesis using reach_run_moves [OF reach.start] by fastforce
qed

end
