(* ===== verification/Play_Equivalence.thy ===== *)
theory Play_Equivalence
  imports Play_Async
begin

text \<open>
  The sequential reading of \<open>play\<close> (\<open>Play_Session\<close>) against its concurrent reading
  (\<open>Play_Async\<close>), in the manner of the equivalence of big-step and small-step
  semantics.  The session machine leaves the renderer's answers and the task's result
  open; \<open>answered_by render srv s\<close> fixes them to those of the two records: every action
  in the trace carries the renderer's answer to it, and a finished task the server's
  join result.  The theorem: \<open>play render srv\<close> returns a trace and an outcome exactly
  when some run of the machine so answered ends with that outcome and with that trace of
  orchestrator events.  So the interleaving of the streaming task changes nothing the
  orchestrator observes, and the machine has no run that \<open>play\<close> does not make.
\<close>

definition answered_by :: "Render \<Rightarrow> 'v MediaStreamingServer \<Rightarrow> 'v session \<Rightarrow> bool" where
  "answered_by render srv s \<longleftrightarrow>
     list_all (\<lambda>e. case e of Action u n p r \<Rightarrow> r = service_action render u n p | _ \<Rightarrow> True)
       (trace s) \<and>
     (case task s of Finished r \<Rightarrow> r = run_join srv | _ \<Rightarrow> True)"

subsection \<open>From \<open>play\<close> to a run\<close>

lemma run_moves_play_answered:
  fixes srv :: "'v MediaStreamingServer"
  shows "\<exists>s :: 'v session.
     run_moves (device_url render) (payload_setavtransporturi srv)
       (play_moves (service_action render (device_url render) ''SetAVTransportURI''
                      (payload_setavtransporturi srv))
                   (service_action render (device_url render) ''Play'' PAYLOAD_PLAY)
                   (run_join srv)) init_session = Some s \<and>
     answered_by render srv s \<and>
     phase_outcome (phase s) = Some (snd (play render srv)) \<and> orch (trace s) = fst (play render srv)"
  by (cases "service_action render (device_url render) ''SetAVTransportURI'' (payload_setavtransporturi srv)";
      cases "service_action render (device_url render) ''Play'' PAYLOAD_PLAY";
      cases "run_join srv")
     (simp_all add: play_moves_def init_session_def play_def call_action_simp Let_def orch_def
        answered_by_def)

subsection \<open>From a run to \<open>play\<close>\<close>

lemma answered_by_action:
  "answered_by render srv s \<Longrightarrow> Action u n p r \<in> set (orch (trace s)) \<Longrightarrow>
   service_action render u n p = r"
  by (auto simp: answered_by_def list_all_iff dest!: set_orch)

lemma answered_by_task: "answered_by render srv s \<Longrightarrow> task s = Finished r \<Longrightarrow> run_join srv = r"
  by (simp add: answered_by_def)

lemmas play_unfold = play_def call_action_simp Let_def play_msgs

lemma session_ended_play:
  fixes srv :: "'v MediaStreamingServer"
  assumes reach: "reach (device_url render) (payload_setavtransporturi srv) s"
    and ans: "answered_by render srv s" and out: "phase_outcome (phase s) = Some out"
  shows "play render srv = (orch (trace s), out)"
proof -
  let ?url = "device_url render" and ?p = "payload_setavtransporturi srv"
  have inv: "session_inv ?url ?p s" using reach by (rule reach_session_inv)
  have act: "service_action render u n q = r" if "Action u n q r \<in> set (orch (trace s))" for u n q r
    using ans that by (rule answered_by_action)
  consider (completed) "phase s = Completed" | (failed) m where "phase s = Failed m"
    using out by (cases "phase s") auto
  then show ?thesis
  proof cases
    case completed
    with inv obtain v where tr: "orch (trace s) = full_run ?url ?p" and tk: "task s = Finished (Inr v)"
      by (auto simp: session_inv_def)
    have "service_action render ?url ''SetAVTransportURI'' ?p = Inr ()"
      and "service_action render ?url ''Play'' PAYLOAD_PLAY = Inr ()"
      by (rule act, simp add: tr full_run_def)+
    moreover have "run_join srv = Inr v" using answered_by_task [OF ans tk] .
    ultimately show ?thesis using completed out tr by (simp add: play_unfold full_run_def)
  next
    case (failed m)
    with inv obtain e where
      "(orch (trace s) = take 3 (full_run ?url ?p) @ [Action ?url ''SetAVTransportURI'' ?p (Inl e)] \<and>
          m = panic_setav @ e) \<or>
       (orch (trace s) = take 5 (full_run ?url ?p) @ [Action ?url ''Play'' PAYLOAD_PLAY (Inl e)] \<and>
          m = panic_play @ e) \<or>
       (orch (trace s) = full_run ?url ?p \<and> task s = Finished (Inl e) \<and> m = panic_serving @ e)"
      by (auto simp: session_inv_def)
    then show ?thesis
    proof (elim disjE conjE)
      assume tr: "orch (trace s) = take 3 (full_run ?url ?p) @ [Action ?url ''SetAVTransportURI'' ?p (Inl e)]"
        and "m = panic_setav @ e"
      moreover have "service_action render ?url ''SetAVTransportURI'' ?p = Inl e"
        by (rule act) (simp add: tr)
      ultimately show ?thesis using failed out by (simp add: play_unfold full_run_def)
    next
      assume tr: "orch (trace s) = take 5 (full_run ?url ?p) @ [Action ?url ''Play'' PAYLOAD_PLAY (Inl e)]"
        and "m = panic_play @ e"
      moreover have "service_action render ?url ''SetAVTransportURI'' ?p = Inr ()"
        and "service_action render ?url ''Play'' PAYLOAD_PLAY = Inl e"
        by (rule act, simp add: tr full_run_def)+
      ultimately show ?thesis using failed out by (simp add: play_unfold full_run_def)
    next
      assume tr: "orch (trace s) = full_run ?url ?p" and tk: "task s = Finished (Inl e)"
        and "m = panic_serving @ e"
      moreover have "service_action render ?url ''SetAVTransportURI'' ?p = Inr ()"
        and "service_action render ?url ''Play'' PAYLOAD_PLAY = Inr ()"
        by (rule act, simp add: tr full_run_def)+
      moreover have "run_join srv = Inl e" using answered_by_task [OF ans tk] .
      ultimately show ?thesis using failed out by (simp add: play_unfold full_run_def)
    qed
  qed
qed

subsection \<open>The equivalence\<close>

text \<open>
  C6. Equivalence of the two readings of \<open>play\<close>: for every renderer and server,
  \<open>play\<close> ends with a given trace and outcome if and only if some interleaving of the
  orchestrator with the streaming task, answered as the renderer and the server answer,
  ends with that outcome and that trace of orchestrator events.
\<close>

theorem play_iff_session:
  fixes srv :: "'v MediaStreamingServer"
  shows "play render srv = (tr, out) \<longleftrightarrow>
         (\<exists>s :: 'v session. reach (device_url render) (payload_setavtransporturi srv) s \<and>
              answered_by render srv s \<and> phase_outcome (phase s) = Some out \<and> orch (trace s) = tr)"
proof
  assume p: "play render srv = (tr, out)"
  obtain s :: "'v session" where
    run: "run_moves (device_url render) (payload_setavtransporturi srv)
            (play_moves (service_action render (device_url render) ''SetAVTransportURI''
                           (payload_setavtransporturi srv))
                        (service_action render (device_url render) ''Play'' PAYLOAD_PLAY)
                        (run_join srv)) init_session = Some s"
    and rest: "answered_by render srv s \<and> phase_outcome (phase s) = Some (snd (play render srv)) \<and>
               orch (trace s) = fst (play render srv)"
    using run_moves_play_answered by blast
  from reach_run_moves [OF reach.start run] rest p show "\<exists>s :: 'v session.
      reach (device_url render) (payload_setavtransporturi srv) s \<and>
      answered_by render srv s \<and> phase_outcome (phase s) = Some out \<and> orch (trace s) = tr"
    by auto
next
  assume "\<exists>s :: 'v session. reach (device_url render) (payload_setavtransporturi srv) s \<and>
            answered_by render srv s \<and> phase_outcome (phase s) = Some out \<and> orch (trace s) = tr"
  then show "play render srv = (tr, out)" by (auto dest: session_ended_play)
qed

theorem play_iff_session_witness:
  "\<exists>s :: unit session.
     reach ''http://r/ctl''
       (payload_setavtransporturi
          (\<lparr>video_uri = ''http://h/v.mp4'', video_type = ''mp4'', subtitle_uri = None,
            subtitle_type = None, run_join = Inl ''task panicked''\<rparr> :: unit MediaStreamingServer)) s \<and>
     answered_by \<lparr>device_url = ''http://r/ctl'', service_action = (\<lambda>u n p. Inr ())\<rparr>
       (\<lparr>video_uri = ''http://h/v.mp4'', video_type = ''mp4'', subtitle_uri = None,
         subtitle_type = None, run_join = Inl ''task panicked''\<rparr> :: unit MediaStreamingServer) s \<and>
     phase_outcome (phase s) = Some (Panicked ''Error while serving the media files: task panicked'') \<and>
     orch (trace s) = fst (play \<lparr>device_url = ''http://r/ctl'', service_action = (\<lambda>u n p. Inr ())\<rparr>
       (\<lparr>video_uri = ''http://h/v.mp4'', video_type = ''mp4'', subtitle_uri = None,
         subtitle_type = None, run_join = Inl ''task panicked''\<rparr> :: unit MediaStreamingServer))"
  using play_iff_session [of "\<lparr>device_url = ''http://r/ctl'', service_action = (\<lambda>u n p. Inr ())\<rparr>"
      "\<lparr>video_uri = ''http://h/v.mp4'', video_type = ''mp4'', subtitle_uri = None,
        subtitle_type = None, run_join = Inl ''task panicked''\<rparr> :: unit MediaStreamingServer"
      "fst (play \<lparr>device_url = ''http://r/ctl'', service_action = (\<lambda>u n p. Inr ())\<rparr>
       (\<lparr>video_uri = ''http://h/v.mp4'', video_type = ''mp4'', subtitle_uri = None,
         subtitle_type = None, run_join = Inl ''task panicked''\<rparr> :: unit MediaStreamingServer))"
      "Panicked ''Error while serving the media files: task panicked''"]
  by (simp add: play_unfold)

end
