(* ===== verification/Xml_Wellformed.thy ===== *)
theory Xml_Wellformed
  imports Xml_Escape
begin

text \<open>
  A reader for the well-formedness of the XML that \<open>play\<close> produces: the two action
  bodies and the DIDL-Lite document.  It is a deterministic automaton over characters,
  in the manner of a lexer, whose state is the position in the XML 1.0 grammar
  (\<open>xmode\<close>), the stack of open elements and the outline of the elements opened so far,
  each with its depth.  It checks element nesting and matching end tags, names, quoted
  attribute values without \<open><\<close>, unique attribute names within a tag, white space
  between attributes, references (the five predefined entities and character
  references) in text and attribute values, and that text outside every element is
  white space.  Comments, processing instructions, CDATA sections and namespace
  declarations are outside the subset: the program's documents have none.
  \<open>run_pieces\<close> runs the reader over a \<open>format!\<close> template and records the state at each
  hole; \<open>xrun_fmt\<close> then reduces a run over a rendered template to the template's run and
  a check of each argument in the state of its hole.
\<close>

datatype xmode =
    XText
  | XTRef string
  | XLt
  | XSName string
  | XInTag string "string list" bool
  | XAName string "string list" string
  | XAEq string "string list" string
  | XAQuote string "string list"
  | XAVal string "string list" char
  | XARef string "string list" char string
  | XSlash string
  | XEName string
  | XETail string

record xstate =
  xmode :: xmode
  xstack :: "string list"
  xopened :: "(nat \<times> string) list"

definition xinit :: xstate where
  "xinit = \<lparr>xmode = XText, xstack = [], xopened = []\<rparr>"

definition is_ws :: "char \<Rightarrow> bool" where
  "is_ws c \<longleftrightarrow> c = CHR '' '' \<or> c = tab \<or> c = CHR ''\<newline>'' \<or> c = cr"

definition is_letter :: "char \<Rightarrow> bool" where
  "is_letter c \<longleftrightarrow>
     (let n = of_char c :: nat in (65 \<le> n \<and> n \<le> 90) \<or> (97 \<le> n \<and> n \<le> 122))"

definition is_digit :: "char \<Rightarrow> bool" where
  "is_digit c \<longleftrightarrow> (let n = of_char c :: nat in 48 \<le> n \<and> n \<le> 57)"

definition is_hex :: "char \<Rightarrow> bool" where
  "is_hex c \<longleftrightarrow> is_digit c \<or> c \<in> set ''abcdefABCDEF''"

definition name_start :: "char \<Rightarrow> bool" where
  "name_start c \<longleftrightarrow> is_letter c \<or> c = CHR ''_'' \<or> c = CHR '':''"

definition name_char :: "char \<Rightarrow> bool" where
  "name_char c \<longleftrightarrow> name_start c \<or> is_digit c \<or> c = CHR ''-'' \<or> c = CHR ''.''"

text \<open>The body of a reference, between \<open>&\<close> and \<open>;\<close>.\<close>

fun ref_ok :: "string \<Rightarrow> bool" where
  "ref_ok (c # d # ds) =
     (if c = CHR ''#'' then
        (if d = CHR ''x'' then ds \<noteq> [] \<and> list_all is_hex ds else list_all is_digit (d # ds))
      else c # d # ds \<in> {''lt'', ''gt'', ''amp'', ''quot'', ''apos''})"
| "ref_ok [c] = False"
| "ref_ok [] = False"

definition ref_char :: "char \<Rightarrow> bool" where
  "ref_char c \<longleftrightarrow> is_letter c \<or> is_digit c \<or> c = CHR ''#''"

text \<open>
  Whether the text \<open>b\<close> after an ampersand (with \<open>r\<close> read already) completes a
  reference: reference characters, then \<open>;\<close>, naming a known entity or a character.
\<close>

definition ref_closes :: "string \<Rightarrow> string \<Rightarrow> bool" where
  "ref_closes r b \<longleftrightarrow>
     (let w = takeWhile ref_char b; rest = dropWhile ref_char b
      in rest \<noteq> [] \<and> hd rest = CHR '';'' \<and> ref_ok (r @ w))"

text \<open>Opening an element (after its start tag) and closing one (after its end tag).\<close>

definition x_open :: "xstate \<Rightarrow> string \<Rightarrow> bool \<Rightarrow> xstate" where
  "x_open st n push =
     st\<lparr>xmode := XText, xstack := (if push then n # xstack st else xstack st),
        xopened := xopened st @ [(length (xstack st), n)]\<rparr>"

definition x_close :: "xstate \<Rightarrow> string \<Rightarrow> xstate option" where
  "x_close st n =
     (case xstack st of
        m # ms \<Rightarrow> if m = n then Some (st\<lparr>xmode := XText, xstack := ms\<rparr>) else None
      | [] \<Rightarrow> None)"

definition xstep :: "xstate \<Rightarrow> char \<Rightarrow> xstate option" where
  "xstep st c =
     (let go = (\<lambda>m. Some (st\<lparr>xmode := m\<rparr>)) in
      case xmode st of
        XText \<Rightarrow>
          (if c = CHR ''<'' then go XLt
           else if c = CHR ''&'' then go (XTRef [])
           else if xstack st = [] \<and> \<not> is_ws c then None
           else Some st)
      | XTRef r \<Rightarrow>
          (if c = CHR '';'' then (if ref_ok r then go XText else None)
           else if ref_char c then go (XTRef (r @ [c])) else None)
      | XLt \<Rightarrow>
          (if c = CHR ''/'' then go (XEName [])
           else if name_start c then go (XSName [c]) else None)
      | XSName n \<Rightarrow>
          (if name_char c then go (XSName (n @ [c]))
           else if is_ws c then go (XInTag n [] True)
           else if c = CHR ''>'' then Some (x_open st n True)
           else if c = CHR ''/'' then go (XSlash n) else None)
      | XInTag n as w \<Rightarrow>
          (if is_ws c then go (XInTag n as True)
           else if c = CHR ''>'' then Some (x_open st n True)
           else if c = CHR ''/'' then go (XSlash n)
           else if w \<and> name_start c then go (XAName n as [c]) else None)
      | XAName n as a \<Rightarrow>
          (if name_char c then go (XAName n as (a @ [c]))
           else if is_ws c then go (XAEq n as a)
           else if c = CHR ''='' then (if a \<in> set as then None else go (XAQuote n (a # as)))
           else None)
      | XAEq n as a \<Rightarrow>
          (if is_ws c then Some st
           else if c = CHR ''='' then (if a \<in> set as then None else go (XAQuote n (a # as)))
           else None)
      | XAQuote n as \<Rightarrow>
          (if is_ws c then Some st
           else if c = quot \<or> c = apos then go (XAVal n as c) else None)
      | XAVal n as q \<Rightarrow>
          (if c = q then go (XInTag n as False)
           else if c = CHR ''<'' then None
           else if c = CHR ''&'' then go (XARef n as q [])
           else Some st)
      | XARef n as q r \<Rightarrow>
          (if c = CHR '';'' then (if ref_ok r then go (XAVal n as q) else None)
           else if ref_char c then go (XARef n as q (r @ [c])) else None)
      | XSlash n \<Rightarrow> (if c = CHR ''>'' then Some (x_open st n False) else None)
      | XEName n \<Rightarrow>
          (if (if n = [] then name_start c else name_char c) then go (XEName (n @ [c]))
           else if n \<noteq> [] \<and> is_ws c then go (XETail n)
           else if n \<noteq> [] \<and> c = CHR ''>'' then x_close st n else None)
      | XETail n \<Rightarrow>
          (if is_ws c then Some st else if c = CHR ''>'' then x_close st n else None))"

fun xrun :: "xstate \<Rightarrow> string \<Rightarrow> xstate option" where
  "xrun st [] = Some st"
| "xrun st (c # cs) = (case xstep st c of None \<Rightarrow> None | Some st' \<Rightarrow> xrun st' cs)"

text \<open>
  A well-formed fragment (the content of an element: elements and white space between
  them) ends outside every element; a document has exactly one element at depth 0.
\<close>

definition xml_outline :: "string \<Rightarrow> (nat \<times> string) list option" where
  "xml_outline s =
     (case xrun xinit s of
        Some st \<Rightarrow> if xmode st = XText \<and> xstack st = [] then Some (xopened st) else None
      | None \<Rightarrow> None)"

definition xml_fragment_ok :: "string \<Rightarrow> bool" where
  "xml_fragment_ok s \<longleftrightarrow> xml_outline s \<noteq> None"

definition xml_document_ok :: "string \<Rightarrow> bool" where
  "xml_document_ok s \<longleftrightarrow>
     (case xml_outline s of Some ol \<Rightarrow> length (filter (\<lambda>(d, n). d = 0) ol) = 1 | None \<Rightarrow> False)"

text \<open>The reader over a template: the state after it and the state at each hole.\<close>

fun run_pieces :: "xstate \<Rightarrow> 'a piece list \<Rightarrow> (xstate \<times> ('a \<times> xstate) list) option" where
  "run_pieces st [] = Some (st, [])"
| "run_pieces st (Txt t # ps) = (case xrun st t of None \<Rightarrow> None | Some st' \<Rightarrow> run_pieces st' ps)"
| "run_pieces st (Hole a # ps) = map_option (\<lambda>(st', hs). (st', (a, st) # hs)) (run_pieces st ps)"

text \<open>Arguments that the reader passes over: text without markup or references, and
  in addition without the delimiting quote inside an attribute value.\<close>

definition text_plain :: "string \<Rightarrow> bool" where
  "text_plain s \<longleftrightarrow> list_all (\<lambda>c. c \<noteq> CHR ''<'' \<and> c \<noteq> CHR ''&'') s"

definition attr_plain :: "string \<Rightarrow> bool" where
  "attr_plain s \<longleftrightarrow> list_all (\<lambda>c. c \<noteq> CHR ''<'' \<and> c \<noteq> CHR ''&'' \<and> c \<noteq> quot) s"

text \<open>Where a hole of a template lies, as the reader sees it.\<close>

datatype hole_ctx = In_text | In_attr | Elsewhere

definition hole_ctx :: "xstate \<Rightarrow> hole_ctx" where
  "hole_ctx st =
     (case xmode st of
        XText \<Rightarrow> if xstack st \<noteq> [] then In_text else Elsewhere
      | XAVal n as q \<Rightarrow> if q = quot then In_attr else Elsewhere
      | _ \<Rightarrow> Elsewhere)"

definition hole_summary :: "xstate \<Rightarrow> 'a piece list \<Rightarrow> (xstate \<times> ('a \<times> hole_ctx) list) option" where
  "hole_summary st ps = map_option (\<lambda>(st', hs). (st', map (\<lambda>(a, sa). (a, hole_ctx sa)) hs)) (run_pieces st ps)"

subsection \<open>Runs of the reader\<close>

lemma xrun_append:
  "xrun st (xs @ ys) = (case xrun st xs of None \<Rightarrow> None | Some st' \<Rightarrow> xrun st' ys)"
  by (induction xs arbitrary: st) (auto split: option.splits)

lemma xrun_fmt:
  assumes "run_pieces st ps = Some (st', hs)"
    and "\<forall>(a, sa) \<in> set hs. xrun sa (f a) = Some sa"
  shows "xrun st (fmt f ps) = Some st'"
  using assms
proof (induction st ps arbitrary: hs rule: run_pieces.induct)
  case (2 st t ps)
  then show ?case by (auto simp: xrun_append split: option.splits)
next
  case (3 st a ps)
  then show ?case by (auto simp: xrun_append split: option.splits)
qed simp

lemma xrun_text_plain:
  "xmode st = XText \<Longrightarrow> xstack st \<noteq> [] \<Longrightarrow> text_plain s \<Longrightarrow> xrun st s = Some st"
  by (induction s) (auto simp: text_plain_def xstep_def)

lemma xrun_attr_plain:
  "xmode st = XAVal n as quot \<Longrightarrow> attr_plain s \<Longrightarrow> xrun st s = Some st"
  by (induction s) (auto simp: attr_plain_def xstep_def)

lemma xrun_escape_char:
  assumes "xmode st = XText" and "xstack st \<noteq> []"
  shows "xrun st (escape_char c) = Some st"
  using assms
  by (auto simp: escape_char_def xstep_def char_defs is_letter_def is_digit_def ref_char_def is_hex_def)

lemma xrun_escape:
  "xmode st = XText \<Longrightarrow> xstack st \<noteq> [] \<Longrightarrow> xrun st (escape_str_attribute s) = Some st"
  by (induction s) (simp_all add: xrun_append xrun_escape_char)

lemma attr_plain_text_plain: "attr_plain s \<Longrightarrow> text_plain s"
  by (simp add: attr_plain_def text_plain_def list_all_iff)

lemma hole_ctx_text: "hole_ctx st = In_text \<Longrightarrow> xmode st = XText \<and> xstack st \<noteq> []"
  by (auto simp: hole_ctx_def split: xmode.splits if_splits)

lemma hole_ctx_attr: "hole_ctx st = In_attr \<Longrightarrow> \<exists>n as. xmode st = XAVal n as quot"
  by (auto simp: hole_ctx_def split: xmode.splits if_splits)

lemma ctx_text_plain: "hole_ctx st = In_text \<Longrightarrow> text_plain s \<Longrightarrow> xrun st s = Some st"
  by (blast dest: hole_ctx_text intro: xrun_text_plain)

lemma ctx_attr_plain: "hole_ctx st = In_attr \<Longrightarrow> attr_plain s \<Longrightarrow> xrun st s = Some st"
  by (blast dest: hole_ctx_attr intro: xrun_attr_plain)

lemma ctx_escape: "hole_ctx st = In_text \<Longrightarrow> xrun st (escape_str_attribute s) = Some st"
  by (blast dest: hole_ctx_text intro: xrun_escape)

lemmas ctx_args = ctx_text_plain ctx_attr_plain ctx_escape attr_plain_text_plain

text \<open>
  The reader over a rendered template: when the template's run ends in \<open>st'\<close> and each
  argument leaves the reader where its hole found it, the rendering ends in \<open>st'\<close>.
\<close>

lemma xrun_fmt_ctx:
  assumes "hole_summary st ps = Some (st', cs)"
    and "\<forall>(a, k) \<in> set cs. \<forall>sa. hole_ctx sa = k \<longrightarrow> xrun sa (f a) = Some sa"
  shows "xrun st (fmt f ps) = Some st'"
proof -
  from assms(1) obtain hs where hs: "run_pieces st ps = Some (st', hs)"
    and cs: "cs = map (\<lambda>(a, sa). (a, hole_ctx sa)) hs"
    by (auto simp: hole_summary_def)
  have "\<forall>(a, sa) \<in> set hs. xrun sa (f a) = Some sa"
    using assms(2) unfolding cs by fastforce
  with hs show ?thesis by (rule xrun_fmt)
qed

lemma xml_outline_run:
  "xrun xinit s = Some \<lparr>xmode = XText, xstack = [], xopened = ol\<rparr> \<Longrightarrow> xml_outline s = Some ol"
  by (simp add: xml_outline_def)

text \<open>
  An ampersand in an attribute value that does not start a reference stops the reader
  at the closing quote at the latest.
\<close>

lemma xrun_bad_ref:
  "xmode st = XARef n as quot r \<Longrightarrow> \<not> ref_closes r b \<Longrightarrow> xrun st (b @ quot # cs) = None"
proof (induction b arbitrary: st r)
  case Nil
  then show ?case by (simp add: xstep_def ref_char_def is_letter_def is_digit_def quot_def)
next
  case (Cons c b)
  show ?case
  proof (cases "ref_char c")
    case True
    then have "\<not> ref_closes (r @ [c]) b" using Cons.prems(2) by (simp add: ref_closes_def)
    moreover have "c \<noteq> CHR '';''" using True by (auto simp: ref_char_def is_letter_def is_digit_def)
    ultimately show ?thesis using Cons.prems(1) True
      by (simp add: xstep_def Cons.IH [where r = "r @ [c]"])
  next
    case False
    then show ?thesis using Cons.prems by (auto simp: xstep_def ref_closes_def)
  qed
qed


text \<open>
  The reader on small inputs: nesting and self-closing tags are accepted with their
  depths; a mismatched end tag, a bare ampersand, an unquoted or repeated attribute, an
  unknown reference and text outside the elements are rejected.
\<close>

lemma xml_reader_accepts:
  "xml_outline ''<a><b/>x&amp;y&#xA;</a>'' = Some [(0, ''a''), (1, ''b'')]"
  "xml_outline (''<a k='' @ [quot] @ ''1'' @ [quot] @ ''>t</a>'') = Some [(0, ''a'')]"
  by code_simp+

lemma xml_reader_rejects:
  "xml_outline ''<a></b>'' = None"
  "xml_outline ''<a>&</a>'' = None"
  "xml_outline ''<a>&nbsp;</a>'' = None"
  "xml_outline ''<a k=1/>'' = None"
  "xml_outline (''<a k='' @ [quot, quot] @ '' k='' @ [quot, quot] @ ''/>'') = None"
  "xml_outline ''x<a/>'' = None"
  "xml_outline ''<a>'' = None"
  by code_simp+

end
