(* ===== verification/Payload_Wellformed.thy ===== *)
theory Payload_Wellformed
  imports Control_Payloads Xml_Wellformed
begin

text \<open>
  The XML that \<open>play\<close> sends, read by the reader of \<open>Xml_Wellformed\<close>.  The templates
  of src/src/dlna.rs are run once, symbolically in their arguments: the DIDL-Lite
  template of lines 16 to 33 places its four arguments in double-quoted attribute values
  and in element text, the \<open>SetAVTransportURI\<close> template of lines 44 to 51 both of its
  arguments in element text.  Hence: the DIDL-Lite document is a well-formed document
  with the outline of section 6 of the spec (one \<open>item\<close> under \<open>DIDL-Lite\<close>, then the
  title, three resources, the two caption entries and the class) whenever the URIs and
  subtypes carry no markup, and the \<open>SetAVTransportURI\<close> body is a well-formed fragment
  for every metadata, because the metadata is escaped.  The arguments of the DIDL-Lite
  template are not escaped: a subtitle URI with an ampersand that does not start a
  reference makes the document a renderer decodes ill-formed, whatever the rest of the
  server.
\<close>

definition didl_outline :: "(nat \<times> string) list" where
  "didl_outline =
     [(0, ''DIDL-Lite''), (1, ''item''), (2, ''dc:title''), (2, ''res''), (2, ''res''), (2, ''res''),
      (2, ''sec:CaptionInfoEx''), (2, ''sec:CaptionInfo''), (2, ''upnp:class'')]"

definition setav_outline :: "(nat \<times> string) list" where
  "setav_outline = [(0, ''InstanceID''), (0, ''CurrentURI''), (0, ''CurrentURIMetaData'')]"

subsection \<open>The templates, run once\<close>

lemma hole_summary_setav:
  "hole_summary xinit setav_template =
   Some (\<lparr>xmode = XText, xstack = [], xopened = setav_outline\<rparr>, [(0, In_text), (1, In_text)])"
  by code_simp

lemma xrun_setav:
  assumes "text_plain (video_uri srv)"
  shows "xrun xinit (payload_setavtransporturi srv) =
         Some \<lparr>xmode = XText, xstack = [], xopened = setav_outline\<rparr>"
  unfolding payload_setavtransporturi_def
  by (rule xrun_fmt_ctx [OF hole_summary_setav])
     (use assms in \<open>auto simp: payload_subtitle_def intro: ctx_args split: option.splits\<close>)

subsection \<open>Properties of the payloads as XML\<close>

text \<open>
  C8. With a subtitle, and URIs and subtypes free of markup (no \<open><\<close>, no \<open>&\<close>, and no
  double quote where they fill an attribute), the metadata a renderer decodes from the
  escaped payload is a well-formed XML document whose elements are, in order and with
  their depth: \<open>DIDL-Lite\<close>, one \<open>item\<close> in it, and in the item the title, three
  \<open>res\<close> resources, \<open>sec:CaptionInfoEx\<close>, \<open>sec:CaptionInfo\<close> and \<open>upnp:class\<close>.
\<close>

theorem payload_subtitle_well_formed:
  assumes "subtitle_uri srv = Some u" and "text_plain (video_uri srv)"
    and "attr_plain (video_type srv)" and "attr_plain u"
    and "attr_plain (unwrap_or (subtitle_type srv) ''unknown'')"
  shows "xml_document_ok (unescape_xml (payload_subtitle srv)) \<and>
         xml_outline (unescape_xml (payload_subtitle srv)) =
           Some [(0, ''DIDL-Lite''), (1, ''item''), (2, ''dc:title''), (2, ''res''), (2, ''res''),
                 (2, ''res''), (2, ''sec:CaptionInfoEx''), (2, ''sec:CaptionInfo''), (2, ''upnp:class'')]"
proof -
  have holes: "hole_summary xinit didl_template =
     Some (\<lparr>xmode = XText, xstack = [], xopened = didl_outline\<rparr>,
           [(Type_video, In_attr), (Uri_sub, In_attr), (Type_sub, In_attr), (Uri_video, In_text),
            (Uri_sub, In_text), (Uri_sub, In_text), (Type_sub, In_attr), (Uri_sub, In_text),
            (Type_sub, In_attr), (Uri_sub, In_text)])"
    by code_simp
  have "xrun xinit (didl_document srv u) = Some \<lparr>xmode = XText, xstack = [], xopened = didl_outline\<rparr>"
    unfolding didl_document_def
    by (rule xrun_fmt_ctx [OF holes]) (use assms(2-5) in \<open>auto intro: ctx_args\<close>)
  then have "xml_outline (didl_document srv u) = Some didl_outline" by (rule xml_outline_run)
  then show ?thesis
    using unescape_payload_subtitle [OF assms(1)] by (simp add: xml_document_ok_def didl_outline_def)
qed

theorem payload_subtitle_well_formed_witness:
  "subtitle_uri (\<lparr>video_uri = ''http://h/v.mp4'', video_type = ''mp4'',
                  subtitle_uri = Some ''http://h/s.srt'', subtitle_type = Some ''srt'',
                  run_join = Inr ()\<rparr> :: unit MediaStreamingServer) = Some ''http://h/s.srt'' \<and>
   xml_document_ok (unescape_xml (payload_subtitle
     (\<lparr>video_uri = ''http://h/v.mp4'', video_type = ''mp4'',
       subtitle_uri = Some ''http://h/s.srt'', subtitle_type = Some ''srt'',
       run_join = Inr ()\<rparr> :: unit MediaStreamingServer)))"
  using payload_subtitle_well_formed [of "\<lparr>video_uri = ''http://h/v.mp4'', video_type = ''mp4'',
       subtitle_uri = Some ''http://h/s.srt'', subtitle_type = Some ''srt'',
       run_join = Inr ()\<rparr> :: unit MediaStreamingServer" "''http://h/s.srt''"]
  by (simp add: text_plain_def attr_plain_def quot_def)

text \<open>
  C7. The \<open>SetAVTransportURI\<close> body is a well-formed XML fragment of the three elements
  \<open>InstanceID\<close>, \<open>CurrentURI\<close> and \<open>CurrentURIMetaData\<close>, for every subtitle and every
  metadata, as soon as the video URI is free of \<open><\<close> and \<open>&\<close>: the escape keeps the
  metadata from breaking the outer body.
\<close>

theorem payload_setav_well_formed:
  assumes "text_plain (video_uri srv)"
  shows "xml_outline (payload_setavtransporturi srv) =
           Some [(0, ''InstanceID''), (0, ''CurrentURI''), (0, ''CurrentURIMetaData'')]"
proof -
  have "xrun xinit (payload_setavtransporturi srv) =
        Some \<lparr>xmode = XText, xstack = [], xopened = setav_outline\<rparr>"
    unfolding payload_setavtransporturi_def
    by (rule xrun_fmt_ctx [OF hole_summary_setav])
       (use assms in \<open>auto simp: payload_subtitle_def intro: ctx_args split: option.splits\<close>)
  then show ?thesis using xml_outline_run by (simp add: setav_outline_def)
qed

theorem payload_setav_well_formed_witness:
  "text_plain (video_uri (\<lparr>video_uri = ''http://h/v.mp4'', video_type = ''mp4'',
                  subtitle_uri = Some ''http://h/x<y>&z.srt'', subtitle_type = None,
                  run_join = Inr ()\<rparr> :: unit MediaStreamingServer)) \<and>
   xml_outline (payload_setavtransporturi
     (\<lparr>video_uri = ''http://h/v.mp4'', video_type = ''mp4'',
       subtitle_uri = Some ''http://h/x<y>&z.srt'', subtitle_type = None,
       run_join = Inr ()\<rparr> :: unit MediaStreamingServer)) =
     Some [(0, ''InstanceID''), (0, ''CurrentURI''), (0, ''CurrentURIMetaData'')]"
  using payload_setav_well_formed [of "\<lparr>video_uri = ''http://h/v.mp4'', video_type = ''mp4'',
       subtitle_uri = Some ''http://h/x<y>&z.srt'', subtitle_type = None,
       run_join = Inr ()\<rparr> :: unit MediaStreamingServer"]
  by (simp add: text_plain_def)

text \<open>
  C24. The arguments of the DIDL-Lite template are not escaped.  For every server whose
  subtitle URI holds an ampersand that does not start a reference (a file named
  \<open>Tom&Jerry.srt\<close>), with markup-free text before it and a markup-free video
  subtype, the metadata a renderer decodes from the body is not well-formed XML: the
  raw ampersand lands in the \<open>pv:subtitleFileUri\<close> attribute.  A URI whose ampersand
  starts a reference (\<open>Tom&amp;Jerry.srt\<close>) is not covered, and reads differently.
\<close>

theorem payload_subtitle_ampersand_malformed:
  assumes "subtitle_uri srv = Some (a @ CHR ''&'' # b)"
    and "attr_plain (video_type srv)" and "attr_plain a" and "\<not> ref_closes [] b"
  shows "\<not> xml_fragment_ok (unescape_xml (payload_subtitle srv))"
proof -
  let ?f = "didl_args srv (a @ CHR ''&'' # b)"
    and ?as = "[''pv:subtitleFileUri'', ''xmlns:pv'', ''protocolInfo'']"
  let ?st = "\<lparr>xmode = XAVal ''res'' ?as quot, xstack = [''item'', ''DIDL-Lite''],
              xopened = [(0, ''DIDL-Lite''), (1, ''item''), (2, ''dc:title'')]\<rparr>"
  have holes: "hole_summary xinit (take 3 didl_template) = Some (?st, [(Type_video, In_attr)])"
    by code_simp
  have rest: "drop 3 didl_template =
              Hole Uri_sub # Txt (quot # '' pv:subtitleFileType='' @ [quot]) # drop 5 didl_template"
    by code_simp
  have pre: "xrun xinit (fmt ?f (take 3 didl_template)) = Some ?st"
    by (rule xrun_fmt_ctx [OF holes]) (use assms(2) in \<open>auto intro: ctx_args\<close>)
  have doc: "didl_document srv (a @ CHR ''&'' # b) =
             fmt ?f (take 3 didl_template) @ a @ CHR ''&'' # b @ quot #
               ('' pv:subtitleFileType='' @ [quot] @ fmt ?f (drop 5 didl_template))"
    unfolding didl_document_def
    by (subst append_take_drop_id [symmetric, where n = 3]) (simp only: fmt_append rest, simp)
  have a: "xrun ?st a = Some ?st" by (rule xrun_attr_plain [OF _ assms(3)]) simp
  have amp: "xstep ?st (CHR ''&'') = Some (?st\<lparr>xmode := XARef ''res'' ?as quot []\<rparr>)"
    by (simp add: xstep_def quot_def)
  let ?rest = "quot # ('' pv:subtitleFileType='' @ [quot] @ fmt ?f (drop 5 didl_template))"
  have "xrun (?st\<lparr>xmode := XARef ''res'' ?as quot []\<rparr>) (b @ ?rest) = None"
    by (rule xrun_bad_ref [OF _ assms(4)]) simp
  then have "xrun ?st (CHR ''&'' # b @ ?rest) = None"
    by (simp only: xrun.simps amp option.case)
  then have "xrun ?st (a @ CHR ''&'' # b @ ?rest) = None"
    by (simp only: xrun_append [of ?st a] a option.case)
  then have "xrun xinit (didl_document srv (a @ CHR ''&'' # b)) = None"
    by (simp only: doc xrun_append [of xinit "fmt ?f (take 3 didl_template)"] pre option.case)
  then show ?thesis
    by (simp add: unescape_payload_subtitle [OF assms(1)] xml_fragment_ok_def xml_outline_def)
qed

theorem payload_subtitle_ampersand_malformed_witness:
  "subtitle_uri (\<lparr>video_uri = ''http://h/v.mp4'', video_type = ''mp4'',
       subtitle_uri = Some ''http://h/Tom&Jerry.srt'', subtitle_type = Some ''srt'',
       run_join = Inr ()\<rparr> :: unit MediaStreamingServer) = Some (''http://h/Tom'' @ CHR ''&'' # ''Jerry.srt'') \<and>
   \<not> ref_closes [] ''Jerry.srt'' \<and>
   \<not> xml_fragment_ok (unescape_xml (payload_subtitle
     (\<lparr>video_uri = ''http://h/v.mp4'', video_type = ''mp4'',
       subtitle_uri = Some ''http://h/Tom&Jerry.srt'', subtitle_type = Some ''srt'',
       run_join = Inr ()\<rparr> :: unit MediaStreamingServer)))"
proof -
  have nr: "\<not> ref_closes [] ''Jerry.srt''"
    by (simp add: ref_closes_def ref_char_def is_letter_def is_digit_def)
  show ?thesis
    using payload_subtitle_ampersand_malformed [of "\<lparr>video_uri = ''http://h/v.mp4'', video_type = ''mp4'',
       subtitle_uri = Some ''http://h/Tom&Jerry.srt'', subtitle_type = Some ''srt'',
       run_join = Inr ()\<rparr> :: unit MediaStreamingServer" "''http://h/Tom''" "''Jerry.srt''"] nr
    by (simp add: attr_plain_def quot_def)
qed

end
