(* ===== verification/Play_Spec.thy ===== *)
theory Play_Spec
  imports Play_Async
begin

text \<open>
  The contract the spec sets for the orchestrator (sections 4.2 and 7), as an abstract
  labelled transition system, and the refinement of the session machine of
  \<open>Play_Async\<close> into it.  The spec's states are \<open>Idle\<close>, \<open>StreamingStarted\<close>,
  \<open>TransportUriSet\<close>, \<open>Playing\<close>, \<open>Completed\<close> and \<open>Failed\<close> with a reason; its labels are
  what an observer of the session sees: the launch of the streaming service, each
  remote action with its name and result, and the end of the streaming service with
  its result.  \<open>spec_step\<close> allows exactly the transitions of section 4.2: the two
  actions in order, each only after the previous step succeeded, and a failure of an
  action or of the service ends the session in \<open>Failed\<close> with a diagnostic that names
  the action and contains the error (section 7); \<open>Failed\<close> and \<open>Completed\<close> have no
  successor.  The spec's launch failure has no counterpart in the code (\<open>tokio::spawn\<close>
  does not fail) and is kept to state the contract whole.
  \<open>abs_phase\<close> maps the code's phases onto the spec's states (the \<open>println!\<close>
  statements are internal), \<open>obs_labels\<close> reads the labels off a session's trace.  The
  theorem: the observable behaviour of every reachable session, in every interleaving
  with the streaming task, is a run of the spec ending in the session's abstract state.
\<close>

datatype sphase =
    S_Idle
  | S_StreamingStarted
  | S_TransportUriSet
  | S_Playing
  | S_Completed
  | S_Failed string

datatype slabel =
    L_launch
  | L_launch_failed string
  | L_call string "string option"
  | L_stream_end "string option"

text \<open>A diagnostic that names what failed and carries the underlying error.\<close>

definition names_failure :: "string \<Rightarrow> string \<Rightarrow> string \<Rightarrow> bool" where
  "names_failure what e d \<longleftrightarrow> sublist what d \<and> sublist e d"

inductive spec_step :: "sphase \<Rightarrow> slabel \<Rightarrow> sphase \<Rightarrow> bool" where
  launch: "spec_step S_Idle L_launch S_StreamingStarted"
| launch_fails: "sublist e d \<Longrightarrow> spec_step S_Idle (L_launch_failed e) (S_Failed d)"
| set_uri: "spec_step S_StreamingStarted (L_call ''SetAVTransportURI'' None) S_TransportUriSet"
| set_uri_fails:
    "names_failure ''SetAVTransportURI'' e d \<Longrightarrow>
     spec_step S_StreamingStarted (L_call ''SetAVTransportURI'' (Some e)) (S_Failed d)"
| play: "spec_step S_TransportUriSet (L_call ''Play'' None) S_Playing"
| play_fails:
    "names_failure ''Play'' e d \<Longrightarrow> spec_step S_TransportUriSet (L_call ''Play'' (Some e)) (S_Failed d)"
| stream_ends: "spec_step S_Playing (L_stream_end None) S_Completed"
| stream_fails: "sublist e d \<Longrightarrow> spec_step S_Playing (L_stream_end (Some e)) (S_Failed d)"

inductive spec_run :: "sphase \<Rightarrow> slabel list \<Rightarrow> sphase \<Rightarrow> bool" where
  refl: "spec_run p [] p"
| snoc: "spec_run p ls q \<Longrightarrow> spec_step q l r \<Longrightarrow> spec_run p (ls @ [l]) r"

fun abs_phase :: "phase \<Rightarrow> sphase" where
  "abs_phase Idle = S_Idle"
| "abs_phase Announced = S_Idle"
| "abs_phase Streaming_started = S_StreamingStarted"
| "abs_phase Setting_uri = S_StreamingStarted"
| "abs_phase Transport_uri_set = S_TransportUriSet"
| "abs_phase Play_pending = S_TransportUriSet"
| "abs_phase Playing = S_Playing"
| "abs_phase Completed = S_Completed"
| "abs_phase (Failed m) = S_Failed m"

fun err_of :: "err_msg + 'a \<Rightarrow> string option" where
  "err_of (Inl e) = Some e"
| "err_of (Inr _) = None"

text \<open>The label of an event; the end of the service is observed at its \<open>await\<close>.\<close>

fun event_label :: "'v task \<Rightarrow> event \<Rightarrow> slabel option" where
  "event_label tk Spawn_streaming = Some L_launch"
| "event_label tk (Action u n p r) = Some (L_call n (err_of r))"
| "event_label tk Await_streaming =
     (case tk of Finished r \<Rightarrow> Some (L_stream_end (err_of r)) | _ \<Rightarrow> None)"
| "event_label tk (Println _) = None"
| "event_label tk Task_finished = None"

definition obs_labels :: "'v session \<Rightarrow> slabel list" where
  "obs_labels s = List.map_filter (event_label (task s)) (trace s)"

subsection \<open>Helper lemmas\<close>

lemma map_filter_no_await:
  "Await_streaming \<notin> set tr \<Longrightarrow> List.map_filter (event_label tk) tr = List.map_filter (event_label tk') tr"
proof (induction tr)
  case (Cons e tr)
  then show ?case by (cases e) simp_all
qed simp

lemma session_inv_await:
  "session_inv url payload s \<Longrightarrow> Await_streaming \<in> set (trace s) \<Longrightarrow> \<exists>r. task s = Finished r"
proof -
  assume inv: "session_inv url payload s" and a: "Await_streaming \<in> set (trace s)"
  then have "Await_streaming \<in> set (orch (trace s))" by (simp add: orch_def)
  with inv show "\<exists>r. task s = Finished r"
    by (cases "phase s") (auto simp: session_inv_def full_run_def phase_index.simps take_Suc_conv_app_nth
        numeral_eq_Suc)
qed

lemma obs_labels_snoc:
  "task s' = task s \<Longrightarrow> trace s' = trace s @ [e] \<Longrightarrow>
   obs_labels s' = obs_labels s @ (case event_label (task s) e of None \<Rightarrow> [] | Some l \<Rightarrow> [l])"
  by (simp add: obs_labels_def map_filter_append split: option.splits)

lemma names_failure_split: "names_failure w e (a @ w @ b @ e)"
  using sublist_append_leftI [of e "a @ w @ b"] by (simp add: names_failure_def)

lemma names_failure_panic:
  "names_failure ''SetAVTransportURI'' e (panic_setav @ e)"
  "names_failure ''Play'' e (panic_play @ e)"
proof -
  have ps: "panic_setav = ''Unable to '' @ ''SetAVTransportURI'' @ '', error: ''"
    by (simp add: panic_setav_def)
  show "names_failure ''SetAVTransportURI'' e (panic_setav @ e)"
    unfolding ps append_assoc by (rule names_failure_split)
  have pp: "panic_play = ''Unable to '' @ ''Play'' @ '', error: ''"
    by (simp add: panic_play_def)
  show "names_failure ''Play'' e (panic_play @ e)"
    unfolding pp append_assoc by (rule names_failure_split)
qed

lemmas spec_run_step = spec_run.snoc [OF _ spec_step.intros(1)] spec_run.snoc [OF _ spec_step.intros(3)]
  spec_run.snoc [OF _ spec_step.intros(5)] spec_run.snoc [OF _ spec_step.intros(7)]

subsection \<open>Refinement\<close>

text \<open>
  C9. Refinement of the spec's contract: in every interleaving of the orchestrator with
  the streaming task and for all renderer answers, the labels a session has shown (the
  launch, each action with its name and result, the end of the service with its result)
  form a run of the spec's state machine from \<open>Idle\<close> that ends in the session's
  abstract state; in particular every failure is reported with a diagnostic naming the
  failed action and its error.
\<close>

theorem session_implements_spec:
  assumes "reach url payload s"
  shows "spec_run S_Idle (obs_labels s) (abs_phase (phase s))"
  using assms
proof (induction rule: reach.induct)
  case start
  show ?case by (simp add: init_session_def obs_labels_def spec_run.refl)
next
  case (step s s')
  have inv: "session_inv url payload s" using step.hyps(1) by (rule reach_session_inv)
  from step.hyps(2) show ?case
  proof (cases rule: play_step.cases)
    case (set_uri r)
    with step.IH show ?thesis
      by (cases r) (auto simp: obs_labels_snoc intro: spec_run_step spec_run.snoc
          spec_step.set_uri_fails names_failure_panic)
  next
    case (send_play r)
    with step.IH show ?thesis
      by (cases r) (auto simp: obs_labels_snoc intro: spec_run_step spec_run.snoc
          spec_step.play_fails names_failure_panic)
  next
    case (join r)
    with step.IH show ?thesis
      by (cases r) (auto simp: obs_labels_def map_filter_append intro: spec_run_step spec_run.snoc
          spec_step.stream_fails)
  next
    case spawn
    then have "task s = Not_spawned" using inv by (simp add: session_inv_def)
    then have "Await_streaming \<notin> set (trace s)" using session_inv_await [OF inv] by auto
    then have eq: "List.map_filter (event_label Running) (trace s) =
                   List.map_filter (event_label (task s)) (trace s)"
      by (rule map_filter_no_await)
    have "spec_run S_Idle (obs_labels s @ [L_launch]) S_StreamingStarted"
      using step.IH spawn by (auto intro: spec_run_step)
    then show ?thesis using spawn unfolding obs_labels_def by (simp add: map_filter_append eq)
  next
    case (task_ends r)
    then have "Await_streaming \<notin> set (trace s)" using session_inv_await [OF inv] by auto
    then have "List.map_filter (event_label (Finished r)) (trace s) =
               List.map_filter (event_label (task s)) (trace s)"
      by (rule map_filter_no_await)
    with task_ends step.IH show ?thesis by (simp add: obs_labels_def map_filter_append)
  qed (use step.IH in \<open>auto simp: obs_labels_snoc intro: spec_run_step\<close>)
qed

theorem session_implements_spec_witness:
  "reach ''http://r/ctl'' ''body''
     (\<lparr>phase = Failed (panic_play @ ''busy''), task = Running,
       trace = [Println msg_start, Spawn_streaming, Println msg_set_uri,
                Action ''http://r/ctl'' ''SetAVTransportURI'' ''body'' (Inr ()), Println msg_playing,
                Action ''http://r/ctl'' ''Play'' PAYLOAD_PLAY (Inl ''busy'')]\<rparr> :: unit session) \<and>
   spec_run S_Idle [L_launch, L_call ''SetAVTransportURI'' None, L_call ''Play'' (Some ''busy'')]
     (S_Failed (panic_play @ ''busy''))"
proof -
  have r: "reach ''http://r/ctl'' ''body''
     (\<lparr>phase = Failed (panic_play @ ''busy''), task = Running,
       trace = [Println msg_start, Spawn_streaming, Println msg_set_uri,
                Action ''http://r/ctl'' ''SetAVTransportURI'' ''body'' (Inr ()), Println msg_playing,
                Action ''http://r/ctl'' ''Play'' PAYLOAD_PLAY (Inl ''busy'')]\<rparr> :: unit session)"
    by (rule reach_run_moves [OF reach.start, where
          ms = "[Orch (Inr ()), Orch (Inr ()), Orch (Inr ()), Orch (Inr ()), Orch (Inr ()), Orch (Inl ''busy'')]"])
       (simp add: init_session_def)
  show ?thesis using r session_implements_spec [OF r] by (simp add: obs_labels_def)
qed

end
