(* ===== verification/Play_Calls.thy ===== *)
theory Play_Calls
  imports Play_Session "HOL-Library.State_Monad"
begin

text \<open>
  \<open>play\<close> at the grain of its calls on the two collaborators, written in the state
  monad of HOL-Library.  The state is the log of calls in the order the code makes
  them: each call of an accessor of the \<open>MediaStreamingServer\<close> (\<open>subtitle_uri()\<close> at
  line 12, \<open>video_uri()\<close>, \<open>video_type()\<close> and \<open>subtitle_type()\<close> as the named
  arguments of lines 34 to 37, \<open>video_uri()\<close> again at line 49) and each effect of
  \<open>Play_Session\<close> (printing, the spawn, the two actions, the await).  Rust evaluates
  the arguments of \<open>format!\<close> left to right and the statements in order, and so does
  \<open>play_m\<close>.  The accessors are read from the server record, that is, as the stable
  accessors the spec asks for.  The lemmas: the effects of \<open>play_m\<close> and its outcome are
  those of \<open>play\<close> (a check of the two models); and the accessor calls
  all come before the spawn, with \<open>video_uri()\<close> called twice when there is a subtitle,
  where the spec asks for one call of each accessor after the launch.
\<close>

datatype accessor = Acc_subtitle_uri | Acc_video_uri | Acc_video_type | Acc_subtitle_type

datatype call = Query accessor | Effect event

type_synonym 'a calls = "(call list, 'a) state"

definition query :: "accessor \<Rightarrow> 'a \<Rightarrow> 'a calls" where
  "query a v = State (\<lambda>log. (v, log @ [Query a]))"

definition emit :: "event \<Rightarrow> unit calls" where
  "emit e = State (\<lambda>log. ((), log @ [Effect e]))"

text \<open>One \<open>render.service.action(...).await\<close>: the renderer's answer, logged as its event.\<close>

definition action_m :: "Render \<Rightarrow> string \<Rightarrow> string \<Rightarrow> (err_msg + unit) calls" where
  "action_m render name payload =
     (let r = service_action render (device_url render) name payload
      in State_Monad.bind (emit (Action (device_url render) name payload r))
           (\<lambda>_. State_Monad.return r))"

text \<open>Lines 12 to 42: the metadata, with the accessor calls its \<open>match\<close> makes.\<close>

definition payload_subtitle_m :: "'v MediaStreamingServer \<Rightarrow> string calls" where
  "payload_subtitle_m srv = do {
     subtitle <- query Acc_subtitle_uri (subtitle_uri srv);
     (case subtitle of
        Some u \<Rightarrow> do {
          uri_video <- query Acc_video_uri (video_uri srv);
          type_video <- query Acc_video_type (video_type srv);
          type_sub <- query Acc_subtitle_type (subtitle_type srv);
          State_Monad.return (escape_str_attribute (fmt
            (\<lambda>a. case a of
                   Uri_video \<Rightarrow> uri_video
                 | Type_video \<Rightarrow> type_video
                 | Uri_sub \<Rightarrow> u
                 | Type_sub \<Rightarrow> unwrap_or type_sub ''unknown'') didl_template))
        }
      | None \<Rightarrow> State_Monad.return '''')
   }"

text \<open>Lines 10 to 85.\<close>

definition play_m :: "Render \<Rightarrow> 'v MediaStreamingServer \<Rightarrow> outcome calls" where
  "play_m render streaming_server = do {
     payload_subtitle <- payload_subtitle_m streaming_server;
     uri <- query Acc_video_uri (video_uri streaming_server);
     emit (Println msg_start);
     emit Spawn_streaming;
     emit (Println msg_set_uri);
     r1 <- action_m render ''SetAVTransportURI'' (fmt (\<lambda>i. [uri, payload_subtitle] ! i) setav_template);
     (case r1 of
        Inl e \<Rightarrow> State_Monad.return (Panicked (panic_setav @ e))
      | Inr _ \<Rightarrow> do {
          emit (Println msg_playing);
          r2 <- action_m render ''Play'' PAYLOAD_PLAY;
          (case r2 of
             Inl e \<Rightarrow> State_Monad.return (Panicked (panic_play @ e))
           | Inr _ \<Rightarrow> do {
               emit Await_streaming;
               State_Monad.return
                 (case run_join streaming_server of
                    Inl e \<Rightarrow> Panicked (panic_serving @ e)
                  | Inr _ \<Rightarrow> Returned)
             })
        })
   }"

text \<open>The accessor calls the code makes, in order, and the effects in a log.\<close>

fun query_of :: "call \<Rightarrow> accessor option" where
  "query_of (Query a) = Some a"
| "query_of (Effect _) = None"

fun effect_of :: "call \<Rightarrow> event option" where
  "effect_of (Effect e) = Some e"
| "effect_of (Query _) = None"

subsection \<open>Running the calls\<close>

lemma run_query [simp]: "run_state (query a v) log = (v, log @ [Query a])"
  by (simp add: query_def)

lemma run_emit [simp]: "run_state (emit e) log = ((), log @ [Effect e])"
  by (simp add: emit_def)

lemma run_action_m [simp]:
  "run_state (action_m render name payload) log =
     (service_action render (device_url render) name payload,
      log @ [Effect (Action (device_url render) name payload
                       (service_action render (device_url render) name payload))])"
  by (simp add: action_m_def Let_def)

lemma run_payload_subtitle_m:
  "run_state (payload_subtitle_m srv) log =
     (payload_subtitle srv,
      log @ [Query Acc_subtitle_uri] @
      (case subtitle_uri srv of
         Some _ \<Rightarrow> [Query Acc_video_uri, Query Acc_video_type, Query Acc_subtitle_type]
       | None \<Rightarrow> []))"
proof -
  have "fmt (\<lambda>a. case a of Uri_video \<Rightarrow> video_uri srv | Type_video \<Rightarrow> video_type srv
                   | Uri_sub \<Rightarrow> u | Type_sub \<Rightarrow> unwrap_or (subtitle_type srv) ''unknown'') didl_template =
        didl_document srv u" for u
    unfolding didl_document_def by (rule fmt_cong) (simp add: didl_args_def)
  then show ?thesis
    by (cases "subtitle_uri srv") (simp_all add: payload_subtitle_m_def payload_subtitle_def)
qed

subsection \<open>Properties of the calls\<close>

text \<open>
  A check of the two models against each other: \<open>play_m\<close> ends with the outcome of
  \<open>play\<close>, and its effects, read off the log of calls, are the trace of \<open>play\<close>; the
  log adds only the accessor calls.
\<close>

lemma play_m_agrees_with_play:
  "fst (run_state (play_m render srv) []) = snd (play render srv) \<and>
   List.map_filter effect_of (snd (run_state (play_m render srv) [])) = fst (play render srv)"
  by (cases "service_action render (device_url render) ''SetAVTransportURI'' (payload_setavtransporturi srv)";
      cases "service_action render (device_url render) ''Play'' PAYLOAD_PLAY";
      cases "subtitle_uri srv")
     (simp_all add: play_m_def run_payload_subtitle_m play_def call_action_simp Let_def
        payload_setavtransporturi_def map_filter_append)

text \<open>
  C10. The accessor calls of \<open>play\<close>: \<open>subtitle_uri()\<close>, then, with a subtitle,
  \<open>video_uri()\<close>, \<open>video_type()\<close> and \<open>subtitle_type()\<close>, then \<open>video_uri()\<close> once more;
  and none of them comes after the spawn of the streaming task.  So the code queries
  the server before launching it and, with a subtitle, asks for the video URI twice,
  where the spec asks for one call of each accessor after the launch.
\<close>

theorem play_queries_before_spawn:
  "List.map_filter query_of (snd (run_state (play_m render srv) [])) =
     Acc_subtitle_uri #
     (case subtitle_uri srv of
        Some _ \<Rightarrow> [Acc_video_uri, Acc_video_type, Acc_subtitle_type]
      | None \<Rightarrow> []) @ [Acc_video_uri] \<and>
   List.map_filter query_of
     (dropWhile (\<lambda>c. c \<noteq> Effect Spawn_streaming) (snd (run_state (play_m render srv) []))) = []"
  by (cases "service_action render (device_url render) ''SetAVTransportURI'' (payload_setavtransporturi srv)";
      cases "service_action render (device_url render) ''Play'' PAYLOAD_PLAY";
      cases "subtitle_uri srv")
     (simp_all add: play_m_def run_payload_subtitle_m payload_setavtransporturi_def map_filter_append)

end
