(* ===== verification/Spec2Isabelle.thy ===== *)
theory Spec2Isabelle
  imports Play_Equivalence Payload_Wellformed Play_Spec Play_Calls
begin

text \<open>
  \<^bold>\<open>A verification development of crab-dlna's casting core.\<close>

  \<^emph>\<open>The program.\<close>  The repository's subject is one async function, \<open>play\<close> in
  src/src/dlna.rs.  Given a renderer (\<open>Render\<close>: a control URL and an AVTransport
  service) and a \<open>MediaStreamingServer\<close>, it
  \<^enum> builds the DIDL-Lite metadata of the video and its subtitle (lines 12 to 42) and
    escapes it as an XML attribute value; without a subtitle the metadata is empty;
  \<^enum> formats the \<open>SetAVTransportURI\<close> body from the video URI and the metadata
    (lines 44 to 51); the \<open>Play\<close> body is the constant \<open>PAYLOAD_PLAY\<close> (lines 5 to 8);
  \<^enum> spawns the streaming server's \<open>run()\<close> as a tokio task (lines 53 to 56);
  \<^enum> sends \<open>SetAVTransportURI\<close>, then \<open>Play\<close>, panicking on the first error
    (lines 58 to 78);
  \<^enum> awaits the streaming task and panics if it ended by a \<open>JoinError\<close> (lines 80 to 84).
  The renderer's SOAP client, the streaming server and the \<open>xml\<close> crate's escape are
  collaborators outside src/; the development models them from their interface.

  \<^emph>\<open>The library.\<close>
  \<^item> \<open>Dlna_Prelude\<close>: Rust's \<open>format!\<close> as a list of literal pieces and holes (\<open>fmt\<close>),
    \<open>Option::unwrap_or\<close>, and two scanners the payload lemmas read with: \<open>count_occ\<close>
    (occurrences of a needle) and \<open>after_tag\<close>/\<open>element_text\<close> (the text of an
    element); generic lemmas on them (\<open>fmt_hom\<close>, \<open>count_occ_fmt_ge\<close>,
    \<open>sublist_fmt\<close>, \<open>after_tag_skip\<close>).
  \<^item> \<open>Xml_Escape\<close>: \<open>escape_str_attribute\<close> (the \<open>xml\<close> crate, table of seven
    characters) and the reader's side: \<open>unescape_xml\<close> resolves the references,
    \<open>xml_text_ok\<close> decides legal character data or attribute values,
    \<open>attr_value_parse\<close> adds attribute-value normalisation.  Lemmas: round trip, legality,
    length bounds, identity on plain strings, tab behaviour.
  \<^item> \<open>Dlna_Interfaces\<close>: the records \<open>Render\<close> and \<open>MediaStreamingServer\<close>.  The
    renderer's answer to each action is the field \<open>service_action\<close> (a function of URL,
    action name and body), the task's join result the field \<open>run_join\<close>; so quantifying
    over the records quantifies over every behaviour of the collaborators.
  \<^item> \<open>Didl_Metadata\<close>: \<open>didl_template\<close> (the raw string of lines 16 to 33 byte for
    byte), \<open>didl_args\<close>, \<open>didl_document\<close> and \<open>payload_subtitle\<close>; lemmas on the
    document's shape carried through the escape.
  \<^item> \<open>Control_Payloads\<close>: \<open>PAYLOAD_PLAY\<close>, \<open>setav_template\<close>,
    \<open>payload_setavtransporturi\<close>, and \<open>start_tags\<close> to list a body's fields; lemmas on
    the fields each body carries.
  \<^item> \<open>Play_Session\<close>: \<open>play\<close> as a function from the two records to its trace of events
    (printing, spawning, each action with its result, awaiting the task) and its outcome
    (\<open>Returned\<close> or \<open>Panicked\<close> with the panic message); lemmas give the exact result
    on each of the three exits.
  \<^item> \<open>Play_Async\<close>: the concurrency of \<open>play\<close>.  A \<open>session\<close> record holds the
    orchestrator's \<open>phase\<close> (one value per statement of lines 53 to 84), the spawned
    \<open>task\<close> (not spawned, running, finished with its join result) and the event
    \<open>trace\<close>.  The inductive \<open>play_step\<close> has one rule per statement and one rule,
    \<open>task_ends\<close>, by which the task may end at any moment after the spawn; \<open>reach\<close>
    is its reflexive-transitive closure from \<open>init_session\<close>, so every interleaving of
    the two tasks and every renderer answer is a run.  An executable schedule
    (\<open>move_next\<close>, \<open>run_moves\<close>) is proved equal to the relation
    (\<open>play_step_iff\<close>) and evaluates witnesses.  The invariant \<open>session_inv\<close>
    (the orchestrator's events are a prefix of the full run fixed by the phase) holds of
    every reachable session by rule induction; from it: the calls are ordered, a
    completed session made exactly the full run, a session that has not ended can move,
    and every run has at most eight steps (the measure \<open>rank\<close> falls by one per
    step from 8).
  \<^item> \<open>Play_Equivalence\<close>: the two readings of \<open>play\<close> agree.  \<open>answered_by\<close> ties
    a run of the machine to the two records (each recorded action result is the
    renderer's answer, a finished task's result the server's); \<open>play_iff_session\<close>
    shows that \<open>play\<close> returns a trace and an outcome exactly when some so answered run
    ends with them, as the big-step and small-step semantics of IMP agree.
  \<^item> \<open>Play_Calls\<close>: \<open>play\<close> once more, at the grain of its calls, in the state
    monad of HOL-Library (\<open>play_m\<close>, \<open>payload_subtitle_m\<close>, \<open>action_m\<close>): the state is
    the log of every accessor call on the server (\<open>query\<close>) and every effect
    (\<open>emit\<close>) in the order of the source, \<open>format!\<close> arguments left to right.
    A cross-check lemma, \<open>play_m_agrees_with_play\<close>, shows that its outcome and effects
    are those of \<open>play\<close>; \<open>play_queries_before_spawn\<close> gives the accessor calls in order.
  \<^item> \<open>Play_Spec\<close>: the spec's contract (sections 4.2 and 7) as an abstract
    labelled transition system \<open>spec_step\<close> over the states \<open>Idle\<close> to \<open>Completed\<close> and
    \<open>Failed\<close>, whose labels are the launch, each action with its name and result, and the
    end of the service; a failure must carry a diagnostic naming the action and the
    error.  \<open>abs_phase\<close> and \<open>obs_labels\<close> abstract a session; \<open>session_implements_spec\<close>
    proves by rule induction that every reachable session's observable behaviour is a
    run of the spec.
  \<^item> \<open>Xml_Wellformed\<close>: a reader of XML well-formedness, a deterministic automaton
    over characters (\<open>xstep\<close>, \<open>xrun\<close>) whose state is the grammar position, the stack
    of open elements and the outline of the elements met with their depth.  It checks
    nesting and matching end tags, names, quoted attribute values, unique attribute
    names, references, and that text outside the elements is white space; comments,
    processing instructions, CDATA and namespace declarations are left out because
    the program emits none.  \<open>run_pieces\<close>/\<open>hole_summary\<close> run it once over a
    \<open>format!\<close> template and record where each hole lies (element text or a quoted
    attribute value); \<open>xrun_fmt_ctx\<close> then reduces the rendered string to the template
    and one check per argument (markup-free text, or the escape, which the reader passes
    over in text).
  \<^item> \<open>Payload_Wellformed\<close>: the payloads read by it: the two action bodies are
    well-formed fragments with exactly their fields, the DIDL-Lite document is a
    well-formed document with the outline of section 6 of the spec, and a subtitle URI
    with an ampersand that does not start a reference breaks it, for every server.  The
    reader's lemma \<open>xrun_bad_ref\<close> gives the failure: inside an attribute value, an
    ampersand must be followed by a reference closed by a semicolon (\<open>ref_closes\<close>).  The template runs are evaluated by \<open>code_simp\<close>.
  \<^item> This theory: the properties that span the builder, the payloads and the orchestrator.

  \<^emph>\<open>What the lemmas show.\<close>  The metadata is empty without a subtitle and otherwise the
  escape of the fixed document, whose video resource carries the video subtype and whose
  subtitle URI appears five times; the escape is a legal attribute value that decodes back
  to the document, so a renderer reading \<open>CurrentURIMetaData\<close> recovers the document
  exactly; the \<open>SetAVTransportURI\<close> body carries exactly its protocol fields; \<open>play\<close> sends \<open>Play\<close>
  only after a successful \<open>SetAVTransportURI\<close>, stops at the first failed action with a
  panic naming it, and otherwise ends as the streaming task ends; in every interleaving
  with the streaming task the same order holds, the session ends within eight steps, and
  it waits only for the task at the final \<open>await\<close>; the machine's answered runs
  are exactly those of \<open>play\<close>, and their observable behaviour refines the spec's
  state machine, diagnostics included; and the \<open>SetAVTransportURI\<close> body and the
  decoded metadata are well formed, the metadata with one \<open>item\<close> holding the title, three resources, the two caption
  entries and the class, as long as the URIs and subtypes carry no markup.

  \<^emph>\<open>Findings.\<close>  The server's accessors are all called before the streaming
  service is launched, and \<open>video_uri()\<close> twice when there is a subtitle, where the spec
  asks for one call of each after the launch (\<open>play_queries_before_spawn\<close>).  The value that \<open>run()\<close> returns is dropped, so a serving error that
  is reported and not panicked ends the session normally (\<open>play_completion\<close>: only
  a \<open>JoinError\<close> counts as a failure of the task); the video URI is inserted unescaped
  (\<open>payload_setav_fields\<close> holds whatever the URI, \<open><\<close> aside); the escape does
  not protect tabs against attribute-value normalisation (\<open>attr_value_roundtrip_iff\<close>);
  after a failed action the panic drops the task's handle, which detaches the streaming
  task instead of cancelling it (\<open>session_failure_leaves_task_running\<close>); and a task
  that fails at once is noticed only after both actions were sent
  (\<open>session_task_failure_not_fatal_early\<close>); the arguments of the DIDL-Lite
  template are not escaped, so a subtitle file named with a bare ampersand, such as
  \<open>Tom&Jerry.srt\<close>, yields metadata that is not well-formed XML, whatever the rest of
  the server (\<open>payload_subtitle_ampersand_malformed\<close>).

  \<^emph>\<open>Not modelled.\<close>  Every line of src/src/dlna.rs but its three \<open>use\<close>
  declarations is translated; what remains lies outside src/.  Device discovery, the HTTP serving inside the streaming task and
  the SOAP envelope built by the renderer client are outside src/ and reach \<open>play\<close> only
  through the two records; the renderer's XML parser is modelled only as far as
  well-formedness and the decoding of references go.  Printing is kept as events, not as output text.  The tokio
  runtime is abstracted to the interleaving of the two tasks at statement boundaries: the
  orchestrator's statements do not share state with the task, so finer interleavings
  give the same traces.  No fuel is needed: every definition is structurally recursive
  or terminates by a length measure, and the session machine's runs are bounded by eight
  steps (\<open>session_runs_bounded\<close>).
\<close>

text \<open>
  C4. End to end: with a subtitle, and a video URI free of \<open><\<close>, a renderer that reads
  the \<open>CurrentURIMetaData\<close> field of the \<open>SetAVTransportURI\<close> body and resolves its
  references obtains exactly the DIDL-Lite document of lines 16 to 33.
\<close>

theorem setav_metadata_roundtrip:
  assumes "CHR ''<'' \<notin> set (video_uri srv)" and "subtitle_uri srv = Some u"
  shows "map_option unescape_xml
           (element_text ''CurrentURIMetaData'' (payload_setavtransporturi srv)) =
         Some (didl_document srv u)"
  using setav_metadata_field [OF assms(1)] unescape_payload_subtitle [OF assms(2)] by simp

theorem setav_metadata_roundtrip_witness:
  "CHR ''<'' \<notin> set (video_uri (\<lparr>video_uri = ''http://h/v.mp4'', video_type = ''mp4'',
      subtitle_uri = Some ''http://h/s.srt'', subtitle_type = Some ''srt'', run_join = Inr ()\<rparr>
      :: unit MediaStreamingServer)) \<and>
   subtitle_uri (\<lparr>video_uri = ''http://h/v.mp4'', video_type = ''mp4'',
      subtitle_uri = Some ''http://h/s.srt'', subtitle_type = Some ''srt'', run_join = Inr ()\<rparr>
      :: unit MediaStreamingServer) = Some ''http://h/s.srt'' \<and>
   map_option unescape_xml (element_text ''CurrentURIMetaData''
      (payload_setavtransporturi (\<lparr>video_uri = ''http://h/v.mp4'', video_type = ''mp4'',
        subtitle_uri = Some ''http://h/s.srt'', subtitle_type = Some ''srt'', run_join = Inr ()\<rparr>
        :: unit MediaStreamingServer))) =
   Some (didl_document (\<lparr>video_uri = ''http://h/v.mp4'', video_type = ''mp4'',
      subtitle_uri = Some ''http://h/s.srt'', subtitle_type = Some ''srt'', run_join = Inr ()\<rparr>
      :: unit MediaStreamingServer) ''http://h/s.srt'')"
  using setav_metadata_roundtrip [of "\<lparr>video_uri = ''http://h/v.mp4'', video_type = ''mp4'',
      subtitle_uri = Some ''http://h/s.srt'', subtitle_type = Some ''srt'', run_join = Inr ()\<rparr>
      :: unit MediaStreamingServer" "''http://h/s.srt''"]
  by simp

end
